theory Spec2Isabelle
  imports Complex_Main
begin

section \<open>DOM token lists\<close>

text \<open>
  \<open>element.classList\<close> is an ordered set of tokens. \<open>add\<close> appends a token that is
  not yet present, \<open>remove\<close> deletes it, \<open>contains\<close> tests membership.
\<close>

definition classList_contains :: "string \<Rightarrow> string list \<Rightarrow> bool" where
  "classList_contains c cs = (c \<in> set cs)"

definition classList_add :: "string \<Rightarrow> string list \<Rightarrow> string list" where
  "classList_add c cs = (if c \<in> set cs then cs else cs @ [c])"

definition classList_remove :: "string \<Rightarrow> string list \<Rightarrow> string list" where
  "classList_remove c cs = filter (\<lambda>x. x \<noteq> c) cs"


section \<open>JavaScript numbers\<close>

text \<open>
  The scripts compute with IEEE 754 binary64 numbers. A finite double is a rational, and
  an arithmetic operation returns the exact result rounded to the nearest double, ties
  to the even significand. \<open>bitLength n\<close> is the number of binary digits of a positive
  integer, \<open>binaryExponent x\<close> the \<open>k\<close> with \<open>2^k \<le> x < 2^(k+1)\<close> for a positive
  \<open>x\<close>. \<open>roundDouble\<close> rounds to 53 significant bits, and to multiples of
  \<open>2^-1074\<close> in the subnormal range. Where the code obtains an infinity, beyond the
  largest double, the rounded value stands for it: it compares with every finite number
  as the infinity does.
\<close>

function bitLength :: "int \<Rightarrow> int" where
  "bitLength n = (if n \<le> 0 then 0 else 1 + bitLength (n div 2))"
  by auto

termination
  by (relation "measure nat") auto

declare bitLength.simps [simp del]

definition binaryExponent :: "rat \<Rightarrow> int" where
  "binaryExponent x =
     (if 1 \<le> x then bitLength \<lfloor>x\<rfloor> - 1 else - bitLength (\<lceil>1 / x\<rceil> - 1))"

definition pow2 :: "int \<Rightarrow> rat" where
  "pow2 e = (if 0 \<le> e then 2 ^ nat e else 1 / 2 ^ nat (- e))"

definition roundHalfEven :: "rat \<Rightarrow> int" where
  "roundHalfEven x =
     (let n = \<lfloor>x\<rfloor>; r = x - of_int n
      in if r < 1 / 2 then n
         else if 1 / 2 < r then n + 1
         else if n mod 2 = 0 then n else n + 1)"

definition roundDouble :: "rat \<Rightarrow> rat" where
  "roundDouble x =
     (if x = 0 then 0
      else
        let a = \<bar>x\<bar>;
            e = max (binaryExponent a - 52) (- 1074);
            m = roundHalfEven (a / pow2 e)
        in sgn x * of_int m * pow2 e)"

text \<open>The operators \<open>+\<close>, \<open>-\<close> and \<open>*\<close> of the scripts on finite doubles.\<close>

definition jsAdd :: "rat \<Rightarrow> rat \<Rightarrow> rat" where
  "jsAdd x y = roundDouble (x + y)"

definition jsSub :: "rat \<Rightarrow> rat \<Rightarrow> rat" where
  "jsSub x y = roundDouble (x - y)"

definition jsMul :: "rat \<Rightarrow> rat \<Rightarrow> rat" where
  "jsMul x y = roundDouble (x * y)"


section \<open>slider.js\<close>

subsection \<open>State\<close>

text \<open>
  The closure variables of slider.js together with the parts of the track element the
  script writes. \<open>totalCards\<close> is \<open>cards.length\<close>: the node list is queried once
  and is static. \<open>cardWidth\<close> holds \<open>offsetWidth\<close> readings (non-negative integers),
  \<open>gap\<close> the parsed computed gap. Pointer coordinates (\<open>pageX\<close>) are finite doubles
  and may be fractional. \<open>cardWidth / 4\<close> and the products of the integer state
  variables are exact in binary64 and are written without rounding.
  \<open>trackTransform\<close> is the number \<open>v\<close> of the inline style
  \<open>translateX(v px)\<close>, \<open>None\<close> while the script has not written it.
  \<open>preventClick\<close> counts the capture-phase click listeners that \<open>onDragEnd\<close> has
  registered on the track and that have not yet removed themselves.
\<close>

record slider =
  totalCards :: nat
  cardWidth :: nat
  gap :: nat
  currentIndex :: int
  maxIndex :: int
  isDragging :: bool
  startX :: rat
  currentX :: rat
  translateX :: int
  trackClasses :: "string list"
  trackTransform :: "rat option"
  preventClick :: nat

text \<open>
  What \<open>calculateDimensions\<close> reads from the document: \<open>cards[0].offsetWidth\<close>,
  \<open>parseInt(getComputedStyle(track).gap)\<close> (\<open>None\<close> for NaN, as for the keyword
  \<open>normal\<close>; a computed gap is never negative) and \<open>track.parentElement.offsetWidth\<close>.
\<close>

record dims =
  cardOffsetWidth :: nat
  gapParsed :: "nat option"
  containerOffsetWidth :: nat

text \<open>
  The script returns at once when there is no \<open>.slider-track\<close>; otherwise the state
  variables get their initial values. The argument is \<open>None\<close> for a missing track and
  \<open>Some (n, cs)\<close> for a track with \<open>n\<close> cards and class attribute \<open>cs\<close>.
\<close>

definition slider_boot :: "(nat \<times> string list) option \<Rightarrow> slider option" where
  "slider_boot tr =
     (case tr of
        None \<Rightarrow> None
      | Some (n, cs) \<Rightarrow>
          Some \<lparr> totalCards = n, cardWidth = 0, gap = 24, currentIndex = 0, maxIndex = 0,
                 isDragging = False, startX = 0, currentX = 0, translateX = 0,
                 trackClasses = cs, trackTransform = None, preventClick = 0 \<rparr>)"

subsection \<open>Position update\<close>

text \<open>The argument is \<open>None\<close> when the caller passes no \<open>animate\<close>.\<close>

definition updatePosition :: "bool option \<Rightarrow> slider \<Rightarrow> slider" where
  "updatePosition animate s =
     (let animate' = (case animate of None \<Rightarrow> True | Some a \<Rightarrow> a);
          tx = - currentIndex s * int (cardWidth s + gap s)
      in s \<lparr> translateX := tx,
             trackClasses :=
               (if animate' then classList_remove ''is-dragging'' (trackClasses s)
                else classList_add ''is-dragging'' (trackClasses s)),
             trackTransform := Some (of_int tx) \<rparr>)"

subsection \<open>Dimension calculation\<close>

text \<open>\<open>parseInt(style.gap) || 24\<close>: NaN and 0 are falsy.\<close>

definition gapOrDefault :: "nat option \<Rightarrow> nat" where
  "gapOrDefault g = (case g of None \<Rightarrow> 24 | Some v \<Rightarrow> (if v = 0 then 24 else v))"

definition calculateDimensions :: "dims \<Rightarrow> slider \<Rightarrow> slider" where
  "calculateDimensions d s =
     (if totalCards s = 0 then s
      else
        let s1 = s \<lparr> cardWidth := cardOffsetWidth d, gap := gapOrDefault (gapParsed d) \<rparr>;
            visibleCards = containerOffsetWidth d div (cardWidth s1 + gap s1);
            s2 = s1 \<lparr> maxIndex := max 0 (int (totalCards s1) - int visibleCards) \<rparr>
        in if currentIndex s2 > maxIndex s2
           then updatePosition (Some False) (s2 \<lparr> currentIndex := maxIndex s2 \<rparr>)
           else s2)"

subsection \<open>Navigation\<close>

definition goToPrev :: "slider \<Rightarrow> slider" where
  "goToPrev s =
     (if currentIndex s > 0
      then updatePosition None (s \<lparr> currentIndex := currentIndex s - 1 \<rparr>)
      else s)"

definition goToNext :: "slider \<Rightarrow> slider" where
  "goToNext s =
     (if currentIndex s < maxIndex s
      then updatePosition None (s \<lparr> currentIndex := currentIndex s + 1 \<rparr>)
      else s)"

text \<open>
  The keydown listener. \<open>sectionRect\<close> is the bounding rectangle (top, bottom) of
  \<open>track.closest('.portfolio-section')\<close>, \<open>None\<close> when there is no such ancestor.
\<close>

record keydown =
  sectionRect :: "(rat \<times> rat) option"
  innerHeight :: rat
  key :: string

definition onKeyDown :: "keydown \<Rightarrow> slider \<Rightarrow> slider" where
  "onKeyDown e s =
     (case sectionRect e of
        None \<Rightarrow> s
      | Some (rectTop, rectBottom) \<Rightarrow>
          if \<not> (rectTop < innerHeight e \<and> rectBottom > 0) then s
          else if key e = ''ArrowLeft'' then goToPrev s
          else if key e = ''ArrowRight'' then goToNext s
          else s)"

subsection \<open>Drag and touch\<close>

text \<open>
  The argument of \<open>onDragStart\<close> and \<open>onDragMove\<close> is the horizontal coordinate the
  handler selects: \<open>e.pageX\<close> of a mouse event, \<open>e.touches[0].pageX\<close> of a touch event.
  \<open>onDragMove\<close> also calls \<open>preventDefault\<close> on the move event while a drag is in
  progress; that acts on the event, not on the slider, and is left out of the state.
\<close>

definition onDragStart :: "rat \<Rightarrow> slider \<Rightarrow> slider" where
  "onDragStart x s =
     s \<lparr> isDragging := True, startX := x, currentX := x,
         trackClasses := classList_add ''is-dragging'' (trackClasses s) \<rparr>"

definition onDragMove :: "rat \<Rightarrow> slider \<Rightarrow> slider" where
  "onDragMove x s =
     (if \<not> isDragging s then s
      else
        let diff = jsSub x (startX s)
        in s \<lparr> trackTransform := Some (jsAdd (of_int (translateX s)) diff), currentX := x \<rparr>)"

definition onDragEnd :: "slider \<Rightarrow> slider" where
  "onDragEnd s =
     (if \<not> isDragging s then s
      else
        let s1 = s \<lparr> isDragging := False,
                     trackClasses := classList_remove ''is-dragging'' (trackClasses s) \<rparr>;
            diff = jsSub (currentX s1) (startX s1);
            threshold = of_nat (cardWidth s1) / 4;
            s2 = (if diff > threshold \<and> currentIndex s1 > 0
                  then s1 \<lparr> currentIndex := currentIndex s1 - 1 \<rparr>
                  else if diff < - threshold \<and> currentIndex s1 < maxIndex s1
                  then s1 \<lparr> currentIndex := currentIndex s1 + 1 \<rparr>
                  else s1);
            s3 = updatePosition None s2
        in if \<bar>diff\<bar> > 10 then s3 \<lparr> preventClick := preventClick s3 + 1 \<rparr> else s3)"

text \<open>
  A click dispatched through the track. Every registered \<open>preventClick\<close> listener runs
  in the capture phase, cancels the event and removes itself. The result says whether the
  click was cancelled.
\<close>

definition trackClick :: "slider \<Rightarrow> bool \<times> slider" where
  "trackClick s =
     (if preventClick s > 0 then (True, s \<lparr> preventClick := 0 \<rparr>) else (False, s))"

subsection \<open>Event loop\<close>

datatype event =
    PrevClick
  | NextClick
  | KeyDown keydown
  | DragStart rat
  | DragMove rat
  | DragEnd
  | Recalc dims
  | TrackClick

definition step :: "slider \<Rightarrow> event \<Rightarrow> slider" where
  "step s ev =
     (case ev of
        PrevClick \<Rightarrow> goToPrev s
      | NextClick \<Rightarrow> goToNext s
      | KeyDown e \<Rightarrow> onKeyDown e s
      | DragStart x \<Rightarrow> onDragStart x s
      | DragMove x \<Rightarrow> onDragMove x s
      | DragEnd \<Rightarrow> onDragEnd s
      | Recalc d \<Rightarrow> calculateDimensions d s
      | TrackClick \<Rightarrow> snd (trackClick s))"

definition run :: "slider \<Rightarrow> event list \<Rightarrow> slider" where
  "run s evs = foldl step s evs"

text \<open>The prev/next operations: a button click or a keydown.\<close>

fun isNav :: "event \<Rightarrow> bool" where
  "isNav PrevClick = True"
| "isNav NextClick = True"
| "isNav (KeyDown e) = True"
| "isNav ev = False"

text \<open>The documented range of the index.\<close>

definition inRange :: "slider \<Rightarrow> bool" where
  "inRange s = (0 \<le> currentIndex s \<and> currentIndex s \<le> maxIndex s)"

text \<open>\<open>onDragEnd\<close> is the only handler that registers a click listener.\<close>

fun isDragEnd :: "event \<Rightarrow> bool" where
  "isDragEnd DragEnd = True"
| "isDragEnd ev = False"

fun isTrackClick :: "event \<Rightarrow> bool" where
  "isTrackClick TrackClick = True"
| "isTrackClick ev = False"

fun isRecalc :: "event \<Rightarrow> bool" where
  "isRecalc (Recalc d) = True"
| "isRecalc ev = False"

subsection \<open>Sample pages\<close>

text \<open>
  A track with six cards as the script finds it, a track without cards, and two layouts
  of the same page: three cards of 276px in a 900px container, and, after the window was
  narrowed, three cards of 176px in a 600px container.
\<close>

definition demoTrack :: slider where
  "demoTrack = \<lparr> totalCards = 6, cardWidth = 0, gap = 24, currentIndex = 0, maxIndex = 0,
                 isDragging = False, startX = 0, currentX = 0, translateX = 0,
                 trackClasses = [''slider-track''], trackTransform = None, preventClick = 0 \<rparr>"

definition emptyTrack :: slider where
  "emptyTrack = \<lparr> totalCards = 0, cardWidth = 0, gap = 24, currentIndex = 0, maxIndex = 0,
                  isDragging = False, startX = 0, currentX = 0, translateX = 0,
                  trackClasses = [''slider-track''], trackTransform = None, preventClick = 0 \<rparr>"

definition wideLayout :: dims where
  "wideLayout = \<lparr> cardOffsetWidth = 276, gapParsed = Some 24, containerOffsetWidth = 900 \<rparr>"

definition narrowLayout :: dims where
  "narrowLayout = \<lparr> cardOffsetWidth = 176, gapParsed = Some 24, containerOffsetWidth = 600 \<rparr>"

definition veryWideLayout :: dims where
  "veryWideLayout = \<lparr> cardOffsetWidth = 276, gapParsed = Some 24, containerOffsetWidth = 1500 \<rparr>"

text \<open>
  The six-card slider in the wide layout, at rest on card \<open>i\<close>, and the same slider on
  card 1 while a drag that started at x = 400 has reached \<open>x\<close>.
\<close>

definition atIndex :: "int \<Rightarrow> slider" where
  "atIndex i = \<lparr> totalCards = 6, cardWidth = 276, gap = 24, currentIndex = i, maxIndex = 3,
                 isDragging = False, startX = 0, currentX = 0, translateX = - i * 300,
                 trackClasses = [''slider-track''],
                 trackTransform = Some (of_int (- i * 300)), preventClick = 0 \<rparr>"

definition midDrag :: "rat \<Rightarrow> slider" where
  "midDrag x = \<lparr> totalCards = 6, cardWidth = 276, gap = 24, currentIndex = 1, maxIndex = 3,
                 isDragging = True, startX = 400, currentX = x, translateX = - 300,
                 trackClasses = [''slider-track'', ''is-dragging''],
                 trackTransform = Some (jsAdd (- 300) (jsSub x 400)), preventClick = 0 \<rparr>"

text \<open>The doubles next to 2/3, 209/3, 1/3 and 31/3.\<close>

definition twoThirds :: rat where
  "twoThirds = 6004799503160661 / 9007199254740992"

definition twoHundredNineThirds :: rat where
  "twoHundredNineThirds = 4902355844377259 / 70368744177664"

definition oneThird :: rat where
  "oneThird = 6004799503160661 / 18014398509481984"

definition thirtyOneThirds :: rat where
  "thirtyOneThirds = 5817149518686891 / 562949953421312"

definition visibleKey :: "string \<Rightarrow> keydown" where
  "visibleKey k = \<lparr> sectionRect = Some (100, 500), innerHeight = 800, key = k \<rparr>"


section \<open>utils.js\<close>

subsection \<open>Document\<close>

text \<open>
  An element with the properties utils.js reads: its lower-case tag name, its attributes
  (\<open>id\<close> among them), its class list, \<open>offsetHeight\<close> and
  \<open>getBoundingClientRect().top\<close>. A document is the list of its elements in document
  order, a node is an index into that list, and \<open>bodyOverflow\<close> is
  \<open>document.body.style.overflow\<close>.
\<close>

record element =
  tagName :: string
  attrs :: "(string \<times> string) list"
  classes :: "string list"
  offsetHeight :: nat
  rectTop :: rat

record document =
  elements :: "element list"
  bodyOverflow :: string

text \<open>
  A click event: its target and the target's ancestors, innermost first.
\<close>

record click =
  target :: nat
  ancestors :: "nat list"

definition getAttribute :: "string \<Rightarrow> element \<Rightarrow> string option" where
  "getAttribute a e = map_of (attrs e) a"

definition hasAttribute :: "string \<Rightarrow> element \<Rightarrow> bool" where
  "hasAttribute a e = (getAttribute a e \<noteq> None)"

definition hasClass :: "string \<Rightarrow> element \<Rightarrow> bool" where
  "hasClass c e = classList_contains c (classes e)"

text \<open>The selector \<open>a[href^="#"]\<close>.\<close>

definition isHashLink :: "element \<Rightarrow> bool" where
  "isHashLink e =
     (tagName e = ''a'' \<and>
      (case getAttribute ''href'' e of
         None \<Rightarrow> False
       | Some h \<Rightarrow> (case h of [] \<Rightarrow> False | c # _ \<Rightarrow> c = CHR ''#'')))"

definition querySelector :: "(element \<Rightarrow> bool) \<Rightarrow> element list \<Rightarrow> nat option" where
  "querySelector P els = find (\<lambda>i. P (els ! i)) [0 ..< length els]"

definition querySelectorAll :: "(element \<Rightarrow> bool) \<Rightarrow> element list \<Rightarrow> nat list" where
  "querySelectorAll P els = filter (\<lambda>i. P (els ! i)) [0 ..< length els]"

text \<open>\<open>getElementById\<close> never finds anything for the empty string.\<close>

definition getElementById :: "string \<Rightarrow> element list \<Rightarrow> nat option" where
  "getElementById i els =
     (if i = [] then None else querySelector (\<lambda>e. getAttribute ''id'' e = Some i) els)"

text \<open>\<open>e.target.closest(sel)\<close>: the first of the target and its ancestors that matches.\<close>

definition closest :: "(element \<Rightarrow> bool) \<Rightarrow> element list \<Rightarrow> click \<Rightarrow> nat option" where
  "closest P els e = find (\<lambda>i. i < length els \<and> P (els ! i)) (target e # ancestors e)"

definition addClass :: "string \<Rightarrow> nat \<Rightarrow> element list \<Rightarrow> element list" where
  "addClass c i els = els [i := (els ! i) \<lparr> classes := classList_add c (classes (els ! i)) \<rparr>]"

definition removeClass :: "string \<Rightarrow> nat \<Rightarrow> element list \<Rightarrow> element list" where
  "removeClass c i els =
     els [i := (els ! i) \<lparr> classes := classList_remove c (classes (els ! i)) \<rparr>]"

subsection \<open>Modals\<close>

definition closeAllModals :: "document \<Rightarrow> document" where
  "closeAllModals doc =
     (let els = elements doc;
          modals = querySelectorAll (\<lambda>e. hasClass ''modal'' e \<and> hasClass ''is-active'' e) els;
          overlay = querySelector (\<lambda>e. hasClass ''overlay'' e \<and> hasClass ''is-active'' e) els;
          els1 = foldl (\<lambda>acc modal. removeClass ''is-active'' modal acc) els modals;
          els2 = (case overlay of None \<Rightarrow> els1 | Some ov \<Rightarrow> removeClass ''is-active'' ov els1)
      in doc \<lparr> elements := els2, bodyOverflow := [] \<rparr>)"

text \<open>
  The delegated click listener of \<open>initModals\<close>. A trigger found by \<open>closest\<close> carries
  the attribute, so its \<open>getAttribute\<close> is never null.
\<close>

definition modalClick :: "click \<Rightarrow> document \<Rightarrow> document" where
  "modalClick e doc =
     (let els = elements doc
      in case closest (hasAttribute ''data-modal-open'') els e of
           Some trigger \<Rightarrow>
             (case getAttribute ''data-modal-open'' (els ! trigger) of
                None \<Rightarrow> doc
              | Some modalId \<Rightarrow>
                  (let modal = getElementById modalId els;
                       overlay = querySelector (hasClass ''overlay'') els
                   in case modal of
                        None \<Rightarrow> doc
                      | Some m \<Rightarrow>
                          (let els1 = addClass ''is-active'' m els;
                               els2 = (case overlay of
                                         None \<Rightarrow> els1
                                       | Some ov \<Rightarrow> addClass ''is-active'' ov els1)
                           in doc \<lparr> elements := els2, bodyOverflow := ''hidden'' \<rparr>)))
         | None \<Rightarrow>
             (let closer = closest (hasAttribute ''data-modal-close'') els e
              in if closer \<noteq> None \<or> (target e < length els \<and> hasClass ''overlay'' (els ! target e))
                 then closeAllModals doc
                 else doc))"

definition modalKeyDown :: "string \<Rightarrow> document \<Rightarrow> document" where
  "modalKeyDown k doc = (if k = ''Escape'' then closeAllModals doc else doc)"

subsection \<open>Smooth scroll\<close>

text \<open>
  What the click listener of \<open>initSmoothScroll\<close> does to the event, the window and the
  history, in order. \<open>document.querySelector\<close> throws a \<open>SyntaxError\<close> for a string
  that is no selector; the listener does not catch it.
\<close>

datatype effect =
    PreventDefault
  | ScrollTo rat string
  | PushState string

datatype domError = SyntaxError

text \<open>
  The first argument is the meaning of selector strings (\<open>None\<close> for a string that is
  not a valid selector), the second \<open>window.scrollY\<close>.
\<close>

definition smoothScrollClick ::
  "(string \<Rightarrow> (element \<Rightarrow> bool) option) \<Rightarrow> rat \<Rightarrow> click \<Rightarrow> document \<Rightarrow> domError + effect list"
where
  "smoothScrollClick selector scrollY e doc =
     (let els = elements doc
      in case closest isHashLink els e of
           None \<Rightarrow> Inr []
         | Some link \<Rightarrow>
             (case getAttribute ''href'' (els ! link) of
                None \<Rightarrow> Inr []
              | Some targetId \<Rightarrow>
                  if targetId = ''#'' then Inr []
                  else
                    (case selector targetId of
                       None \<Rightarrow> Inl SyntaxError
                     | Some P \<Rightarrow>
                         (case querySelector P els of
                            None \<Rightarrow> Inr []
                          | Some t \<Rightarrow>
                              (let headerHeight =
                                     (case querySelector (hasClass ''site-header'') els of
                                        None \<Rightarrow> 0
                                      | Some h \<Rightarrow> offsetHeight (els ! h));
                                   targetPosition =
                                     jsSub (jsAdd (rectTop (els ! t)) scrollY)
                                       (of_nat headerHeight)
                               in Inr [PreventDefault,
                                       ScrollTo targetPosition ''smooth'',
                                       PushState targetId])))))"


subsection \<open>Sample documents\<close>

text \<open>
  An element with no size. A page with two modals, their triggers and close buttons and
  the shared overlay: the button at index 2 sits inside the first modal and carries both
  \<open>data-modal-close\<close> and \<open>data-modal-open="m2"\<close>, the trigger at index 5 names
  an id that no element has.
\<close>

definition plainElement :: "string \<Rightarrow> (string \<times> string) list \<Rightarrow> string list \<Rightarrow> element" where
  "plainElement t as cs = \<lparr> tagName = t, attrs = as, classes = cs, offsetHeight = 0, rectTop = 0 \<rparr>"

definition modalPage :: document where
  "modalPage =
     \<lparr> elements =
         [plainElement ''button'' [(''data-modal-open'', ''m1'')] [],
          plainElement ''div'' [(''id'', ''m1'')] [''modal''],
          plainElement ''button'' [(''data-modal-close'', ''''), (''data-modal-open'', ''m2'')] [],
          plainElement ''div'' [(''id'', ''m2'')] [''modal''],
          plainElement ''div'' [] [''overlay''],
          plainElement ''button'' [(''data-modal-open'', ''nope'')] [],
          plainElement ''button'' [(''data-modal-close'', '''')] []],
       bodyOverflow = [] \<rparr>"

definition clickOn :: "nat \<Rightarrow> nat list \<Rightarrow> click" where
  "clickOn t as = \<lparr> target = t, ancestors = as \<rparr>"

text \<open>
  A page with a sticky header of 80px, a section \<open>about\<close> 640px below the top of the
  viewport, a section with the id \<open>2024\<close>, and links to both, to \<open>#\<close> and to a
  fragment without element. \<open>sampleSelector\<close> reads the id selectors \<open>#name\<close> whose
  name is a CSS identifier of ASCII letters, digits, hyphens and underscores. An
  identifier does not begin with a digit, nor with a hyphen and a digit, so \<open>#2024\<close> is
  no selector. Other forms of selectors do not occur on the page and are not read.
\<close>

definition scrollPage :: document where
  "scrollPage =
     \<lparr> elements =
         [\<lparr> tagName = ''header'', attrs = [], classes = [''site-header''],
            offsetHeight = 80, rectTop = 0 \<rparr>,
          plainElement ''a'' [(''href'', ''#about'')] [],
          \<lparr> tagName = ''section'', attrs = [(''id'', ''about'')], classes = [],
            offsetHeight = 400, rectTop = 640 \<rparr>,
          plainElement ''a'' [(''href'', ''#'')] [],
          plainElement ''a'' [(''href'', ''#missing'')] [],
          plainElement ''a'' [(''href'', ''#2024'')] [],
          \<lparr> tagName = ''section'', attrs = [(''id'', ''2024'')], classes = [],
            offsetHeight = 400, rectTop = 1200 \<rparr>],
       bodyOverflow = [] \<rparr>"

definition identStart :: "char \<Rightarrow> bool" where
  "identStart c = (c \<in> set ''abcdefghijklmnopqrstuvwxyzABCDEFGHIJKLMNOPQRSTUVWXYZ_'')"

definition identChar :: "char \<Rightarrow> bool" where
  "identChar c = (identStart c \<or> c \<in> set ''0123456789-'')"

definition isIdent :: "string \<Rightarrow> bool" where
  "isIdent name =
     (case name of
        [] \<Rightarrow> False
      | c # cs \<Rightarrow>
          (identStart c
           \<or> (c = CHR ''-'' \<and> (case cs of [] \<Rightarrow> False | d # _ \<Rightarrow> identStart d \<or> d = CHR ''-'')))
          \<and> list_all identChar cs)"

definition sampleSelector :: "string \<Rightarrow> (element \<Rightarrow> bool) option" where
  "sampleSelector s =
     (case s of
        [] \<Rightarrow> None
      | c # name \<Rightarrow>
          if c = CHR ''#'' \<and> isIdent name
          then Some (\<lambda>e. getAttribute ''id'' e = Some name)
          else None)"


section \<open>page-transition.js\<close>

subsection \<open>State\<close>

text \<open>
  The \<open>#page-transition\<close> element: its class list and the \<open>.glitch-lines\<close>
  containers appended to it, each a list of lines with their \<open>top\<close> (percent),
  \<open>height\<close> (pixels) and \<open>opacity\<close>.
\<close>

record glitchLine =
  lineTop :: rat
  lineHeight :: rat
  lineOpacity :: rat

record overlayElement =
  overlayClasses :: "string list"
  glitchLines :: "glitchLine list list"

text \<open>The callbacks the script hands to \<open>setTimeout\<close>.\<close>

datatype timerTask =
    ActivateOverlay
  | StartExit
  | Cleanup
  | Navigate string

text \<open>
  \<open>prefersReducedMotion\<close> is read once when the script starts. \<open>transition\<close> is
  \<open>None\<close> when the page has no \<open>#page-transition\<close>. \<open>timers\<close> are the pending
  timeouts with their delays in milliseconds, in the order they were set.
\<close>

record page =
  prefersReducedMotion :: bool
  bodyClasses :: "string list"
  transition :: "overlayElement option"
  locationHostname :: string
  locationPathname :: string
  locationHref :: string
  timers :: "(nat \<times> timerTask) list"

definition overlayAdd :: "string \<Rightarrow> overlayElement option \<Rightarrow> overlayElement option" where
  "overlayAdd c t =
     (case t of
        None \<Rightarrow> None
      | Some el \<Rightarrow> Some (el \<lparr> overlayClasses := classList_add c (overlayClasses el) \<rparr>))"

definition overlayRemove :: "string \<Rightarrow> overlayElement option \<Rightarrow> overlayElement option" where
  "overlayRemove c t =
     (case t of
        None \<Rightarrow> None
      | Some el \<Rightarrow> Some (el \<lparr> overlayClasses := classList_remove c (overlayClasses el) \<rparr>))"

subsection \<open>Entrance\<close>

text \<open>
  \<open>random n\<close> is the result of the \<open>n\<close>-th call of \<open>Math.random()\<close>; every line
  takes three.
\<close>

definition createGlitchLines :: "(nat \<Rightarrow> rat) \<Rightarrow> page \<Rightarrow> page" where
  "createGlitchLines random p =
     (case transition p of
        None \<Rightarrow> p
      | Some el \<Rightarrow>
          (let container =
                 map (\<lambda>i. \<lparr> lineTop = jsMul (random (3 * i)) 100,
                              lineHeight = jsAdd (jsMul (random (3 * i + 1)) 3) 1,
                              lineOpacity = jsMul (random (3 * i + 2)) (1 / 2) \<rparr>) [0 ..< 20]
           in p \<lparr> transition := Some (el \<lparr> glitchLines := glitchLines el @ [container] \<rparr>) \<rparr>))"

definition init :: "(nat \<Rightarrow> rat) \<Rightarrow> page \<Rightarrow> page" where
  "init random p =
     (let p1 = createGlitchLines random p
      in if \<not> prefersReducedMotion p1
         then p1 \<lparr> bodyClasses := classList_add ''is-glitching'' (bodyClasses p1),
                   timers := timers p1 @ [(50, ActivateOverlay), (500, StartExit)] \<rparr>
         else p1)"

text \<open>A timeout firing.\<close>

definition fire :: "timerTask \<Rightarrow> page \<Rightarrow> page" where
  "fire task p =
     (case task of
        ActivateOverlay \<Rightarrow> p \<lparr> transition := overlayAdd ''glitch-active'' (transition p) \<rparr>
      | StartExit \<Rightarrow>
          p \<lparr> transition :=
                overlayAdd ''glitch-exit'' (overlayRemove ''glitch-active'' (transition p)),
              timers := timers p @ [(400, Cleanup)] \<rparr>
      | Cleanup \<Rightarrow>
          p \<lparr> bodyClasses := classList_remove ''is-glitching'' (bodyClasses p),
              transition := overlayRemove ''glitch-exit'' (transition p) \<rparr>
      | Navigate url \<Rightarrow> p \<lparr> locationHref := url \<rparr>)"

subsection \<open>Navigation\<close>

definition navigateTo :: "string \<Rightarrow> page \<Rightarrow> page" where
  "navigateTo url p =
     (if prefersReducedMotion p then p \<lparr> locationHref := url \<rparr>
      else p \<lparr> bodyClasses := classList_add ''is-leaving'' (bodyClasses p),
               transition := overlayAdd ''glitch-active'' (transition p),
               timers := timers p @ [(450, Navigate url)] \<rparr>)"

text \<open>
  A click as the listener of \<open>handleNavigation\<close> sees it: the properties of
  \<open>e.target.closest('a')\<close> (\<open>None\<close> when the click is not inside a link) and the
  modifier keys.
\<close>

record link =
  linkHostname :: string
  linkDownload :: bool
  linkTarget :: "string option"
  linkHash :: string
  linkPathname :: string
  linkHref :: string

record linkClick =
  clickedLink :: "link option"
  ctrlKey :: bool
  metaKey :: bool
  shiftKey :: bool
  altKey :: bool

text \<open>The result says whether the default action was prevented.\<close>

definition onLinkClick :: "linkClick \<Rightarrow> page \<Rightarrow> bool \<times> page" where
  "onLinkClick e p =
     (case clickedLink e of
        None \<Rightarrow> (False, p)
      | Some l \<Rightarrow>
          if linkHostname l \<noteq> locationHostname p then (False, p)
          else if linkDownload l then (False, p)
          else if linkTarget l = Some ''_blank'' then (False, p)
          else if linkHash l \<noteq> [] \<and> linkPathname l = locationPathname p then (False, p)
          else if ctrlKey e \<or> metaKey e \<or> shiftKey e \<or> altKey e then (False, p)
          else (True, navigateTo (linkHref l) p))"

subsection \<open>History\<close>

definition onPopState :: "page \<Rightarrow> page" where
  "onPopState p =
     p \<lparr> bodyClasses := classList_add ''is-glitching'' (bodyClasses p),
         transition := overlayAdd ''glitch-active'' (transition p) \<rparr>"

subsection \<open>Sample page\<close>

text \<open>A freshly loaded page of a visitor who asked for reduced motion.\<close>

definition calmPage :: page where
  "calmPage = \<lparr> prefersReducedMotion = True, bodyClasses = [],
                transition = Some \<lparr> overlayClasses = [''page-transition''], glitchLines = [] \<rparr>,
                locationHostname = ''example.org'', locationPathname = ''/'',
                locationHref = ''https://example.org/'', timers = [] \<rparr>"


section \<open>Properties of the slider\<close>

subsection \<open>Field lemmas\<close>

lemma classList_contains_add [simp]: "classList_contains c (classList_add c cs)"
  by (simp add: classList_contains_def classList_add_def)

lemma classList_contains_remove [simp]: "\<not> classList_contains c (classList_remove c cs)"
  by (simp add: classList_contains_def classList_remove_def)

lemma updatePosition_fields [simp]:
  "currentIndex (updatePosition a s) = currentIndex s"
  "maxIndex (updatePosition a s) = maxIndex s"
  "cardWidth (updatePosition a s) = cardWidth s"
  "gap (updatePosition a s) = gap s"
  "totalCards (updatePosition a s) = totalCards s"
  "isDragging (updatePosition a s) = isDragging s"
  "startX (updatePosition a s) = startX s"
  "currentX (updatePosition a s) = currentX s"
  "preventClick (updatePosition a s) = preventClick s"
  "translateX (updatePosition a s) = - currentIndex s * int (cardWidth s + gap s)"
  "trackTransform (updatePosition a s) = Some (of_int (- currentIndex s * int (cardWidth s + gap s)))"
  by (simp_all add: updatePosition_def Let_def)

lemma updatePosition_classes:
  "trackClasses (updatePosition None s) = classList_remove ''is-dragging'' (trackClasses s)"
  "trackClasses (updatePosition (Some True) s) = classList_remove ''is-dragging'' (trackClasses s)"
  "trackClasses (updatePosition (Some False) s) = classList_add ''is-dragging'' (trackClasses s)"
  by (simp_all add: updatePosition_def Let_def)

lemma goToNext_index:
  "currentIndex (goToNext s) =
     (if currentIndex s < maxIndex s then currentIndex s + 1 else currentIndex s)"
  by (simp add: goToNext_def)

lemma goToPrev_index:
  "currentIndex (goToPrev s) = (if 0 < currentIndex s then currentIndex s - 1 else currentIndex s)"
  by (simp add: goToPrev_def)

lemma goTo_fields [simp]:
  "preventClick (goToPrev s) = preventClick s"
  "preventClick (goToNext s) = preventClick s"
  "totalCards (goToPrev s) = totalCards s"
  "totalCards (goToNext s) = totalCards s"
  "cardWidth (goToPrev s) = cardWidth s"
  "cardWidth (goToNext s) = cardWidth s"
  "gap (goToPrev s) = gap s"
  "gap (goToNext s) = gap s"
  "maxIndex (goToPrev s) = maxIndex s"
  "maxIndex (goToNext s) = maxIndex s"
  by (simp_all add: goToPrev_def goToNext_def)

text \<open>A keydown does nothing, or what one of the two buttons does.\<close>

lemma onKeyDown_cases:
  "onKeyDown e s = s \<or> onKeyDown e s = goToPrev s \<or> onKeyDown e s = goToNext s"
  by (simp add: onKeyDown_def split: option.splits prod.splits)

lemma onKeyDown_preventClick [simp]: "preventClick (onKeyDown e s) = preventClick s"
  using onKeyDown_cases [of e s] by auto

lemma calculateDimensions_preventClick [simp]:
  "preventClick (calculateDimensions d s) = preventClick s"
  by (simp add: calculateDimensions_def Let_def)

lemma onDragEnd_index:
  "isDragging s \<Longrightarrow> currentIndex (onDragEnd s) =
     (if jsSub (currentX s) (startX s) > of_nat (cardWidth s) / 4 \<and> currentIndex s > 0
      then currentIndex s - 1
      else if jsSub (currentX s) (startX s) < - (of_nat (cardWidth s) / 4) \<and> currentIndex s < maxIndex s
      then currentIndex s + 1 else currentIndex s)"
  by (simp add: onDragEnd_def Let_def)

lemma onDragEnd_fields:
  assumes "isDragging s"
  shows "\<not> isDragging (onDragEnd s)"
    and "maxIndex (onDragEnd s) = maxIndex s"
    and "cardWidth (onDragEnd s) = cardWidth s"
    and "gap (onDragEnd s) = gap s"
    and "totalCards (onDragEnd s) = totalCards s"
    and "translateX (onDragEnd s) = - currentIndex (onDragEnd s) * int (cardWidth s + gap s)"
    and "trackTransform (onDragEnd s) = Some (of_int (translateX (onDragEnd s)))"
    and "\<not> classList_contains ''is-dragging'' (trackClasses (onDragEnd s))"
    and "preventClick (onDragEnd s) =
           (if \<bar>jsSub (currentX s) (startX s)\<bar> > 10 then preventClick s + 1 else preventClick s)"
  using assms by (simp_all add: onDragEnd_def Let_def updatePosition_classes)

text \<open>
  Differences and sums of whole pixels are exact. At the two thresholds the rounding
  decides: from the double next to 2/3 to the double next to 209/3 the exact distance
  is above 69, the computed one is 69; from the double next to 1/3 to the double next
  to 31/3 the exact distance is above 10, the computed one is 10.
\<close>

lemma jsSub_samples:
  "jsSub 500 400 = 100" "jsSub 300 400 = - 100" "jsSub 420 400 = 20" "jsSub 405 400 = 5"
  "jsSub 100 400 = - 300"
  by code_simp+

lemma jsAdd_samples:
  "jsAdd 0 (- 300) = - 300" "jsAdd (- 300) 100 = - 200" "jsAdd 640 1000 = 1640"
  by code_simp+

lemma jsSub_scroll_sample: "jsSub 1640 80 = 1560"
  by code_simp

lemma jsSub_rounds_at_thresholds:
  "twoHundredNineThirds - twoThirds = 69 + 43 / 2 ^ 53"
  "jsSub twoHundredNineThirds twoThirds = 69"
  "thirtyOneThirds - oneThird = 10 + 11 / 2 ^ 54"
  "jsSub thirtyOneThirds oneThird = 10"
  by code_simp+

text \<open>The sample states are states of the script.\<close>

lemma demoTrack_booted: "slider_boot (Some (6, [''slider-track''])) = Some demoTrack"
  by (simp add: slider_boot_def demoTrack_def)

lemma emptyTrack_booted: "slider_boot (Some (0, [''slider-track''])) = Some emptyTrack"
  by (simp add: slider_boot_def emptyTrack_def)

lemma atIndex_reached:
  "run demoTrack [Recalc wideLayout] = (atIndex 0) \<lparr> trackTransform := None \<rparr>"
  "run demoTrack [Recalc wideLayout, NextClick] = atIndex 1"
  "run demoTrack [Recalc wideLayout, NextClick, NextClick, NextClick] = atIndex 3"
  by (simp_all add: run_def step_def demoTrack_def wideLayout_def atIndex_def
      calculateDimensions_def gapOrDefault_def goToNext_def updatePosition_def
      classList_remove_def Let_def)

lemma midDrag_reached: "run (atIndex 1) [DragStart 400, DragMove x] = midDrag x"
  by (simp add: run_def step_def atIndex_def midDrag_def onDragStart_def onDragMove_def
      classList_add_def Let_def)

subsection \<open>Discrete navigation\<close>

lemma nav_step_inRange:
  assumes "isNav ev" and "inRange s"
  shows "inRange (step s ev) \<and> maxIndex (step s ev) = maxIndex s"
proof (cases ev)
  case (KeyDown e)
  then show ?thesis using assms onKeyDown_cases [of e s]
    by (auto simp: step_def inRange_def goToNext_index goToPrev_index)
qed (use assms in \<open>auto simp: step_def inRange_def goToNext_index goToPrev_index\<close>)

lemma nav_run_inRange:
  "list_all isNav evs \<Longrightarrow> inRange s \<Longrightarrow>
   inRange (run s evs) \<and> maxIndex (run s evs) = maxIndex s"
proof (induction evs arbitrary: s)
  case Nil
  then show ?case by (simp add: run_def)
next
  case (Cons ev evs)
  from Cons.prems have a: "isNav ev" and b: "list_all isNav evs" by simp_all
  from nav_step_inRange [OF a Cons.prems(2)]
  have c: "inRange (step s ev)" and d: "maxIndex (step s ev) = maxIndex s" by simp_all
  from Cons.IH [OF b c] d show ?case by (simp add: run_def)
qed

lemma list_all_take: "list_all P xs \<Longrightarrow> list_all P (take n xs)"
  by (simp add: list_all_iff) (meson in_set_takeD)

text \<open>
  Claim C1. Start with \<open>0 \<le> currentIndex \<le> maxIndex\<close> and apply any sequence of
  prev/next operations, each a button click or a keydown. After every prefix of the
  sequence the index is still in \<open>[0, maxIndex]\<close>, and \<open>maxIndex\<close> has not changed.
  \<open>goToNext\<close> adds exactly one when the index is below \<open>maxIndex\<close> and is the identity
  on the state otherwise; \<open>goToPrev\<close> subtracts exactly one when the index is above 0
  and is the identity otherwise.
\<close>

theorem nav_index_in_range:
  assumes "0 \<le> currentIndex s" and "currentIndex s \<le> maxIndex s" and "list_all isNav evs"
  shows "0 \<le> currentIndex (run s (take n evs))
       \<and> currentIndex (run s (take n evs)) \<le> maxIndex s
       \<and> maxIndex (run s (take n evs)) = maxIndex s
       \<and> (currentIndex s < maxIndex s \<longrightarrow> currentIndex (goToNext s) = currentIndex s + 1)
       \<and> (\<not> currentIndex s < maxIndex s \<longrightarrow> goToNext s = s)
       \<and> (currentIndex s > 0 \<longrightarrow> currentIndex (goToPrev s) = currentIndex s - 1)
       \<and> (\<not> currentIndex s > 0 \<longrightarrow> goToPrev s = s)"
proof -
  have "inRange s" using assms by (simp add: inRange_def)
  from nav_run_inRange [OF list_all_take [OF assms(3)] this, of n]
  have "0 \<le> currentIndex (run s (take n evs))
       \<and> currentIndex (run s (take n evs)) \<le> maxIndex s
       \<and> maxIndex (run s (take n evs)) = maxIndex s"
    by (simp add: inRange_def)
  then show ?thesis by (simp add: goToNext_def goToPrev_def)
qed

theorem nav_index_in_range_witness:
  "0 \<le> currentIndex (atIndex 1) \<and> currentIndex (atIndex 1) \<le> maxIndex (atIndex 1)
   \<and> list_all isNav [NextClick, KeyDown (visibleKey ''ArrowRight''), NextClick, PrevClick]
   \<and> currentIndex (run (atIndex 1)
        (take 3 [NextClick, KeyDown (visibleKey ''ArrowRight''), NextClick, PrevClick])) \<le> 3
   \<and> currentIndex (goToNext (atIndex 1)) = 2
   \<and> currentIndex (goToPrev (atIndex 1)) = 0
   \<and> goToNext (atIndex 3) = atIndex 3
   \<and> goToPrev (atIndex 0) = atIndex 0"
proof -
  have a: "0 \<le> currentIndex (atIndex i)" if "0 \<le> i" for i
    using that by (simp add: atIndex_def)
  have b: "currentIndex (atIndex i) \<le> maxIndex (atIndex i)" if "i \<le> 3" for i
    using that by (simp add: atIndex_def)
  have c: "list_all isNav [NextClick, KeyDown (visibleKey ''ArrowRight''), NextClick, PrevClick]"
    by simp
  have d: "currentIndex (atIndex i) = i" "maxIndex (atIndex i) = 3" for i
    by (simp_all add: atIndex_def)
  from nav_index_in_range [OF a b c, of 1 3] nav_index_in_range [OF a b c, of 3 0]
       nav_index_in_range [OF a b c, of 0 0] a [of 1] b [of 1] c
  show ?thesis by (simp add: d)
qed

subsection \<open>End of a drag\<close>

text \<open>
  Claim C2. Let a drag end while \<open>isDragging\<close> holds, with \<open>diff\<close> the value the
  code computes for \<open>currentX - startX\<close>, the rounded difference of the two doubles. If
  \<open>diff > cardWidth / 4\<close> and the index is above 0, the index decreases by exactly
  one; if \<open>diff < - cardWidth / 4\<close> and the index is below \<open>maxIndex\<close>, it increases by
  exactly one; in every other case it is unchanged. In all cases the drag is over and
  the position is applied again with animation: \<open>translateX\<close> and the written transform
  are \<open>- currentIndex * (cardWidth + gap)\<close> for the new index, and the class
  \<open>is-dragging\<close> is off the track.
\<close>

theorem drag_end_index:
  assumes "isDragging s"
  shows "(jsSub (currentX s) (startX s) > of_nat (cardWidth s) / 4 \<and> currentIndex s > 0
            \<longrightarrow> currentIndex (onDragEnd s) = currentIndex s - 1)
       \<and> (jsSub (currentX s) (startX s) < - (of_nat (cardWidth s) / 4) \<and> currentIndex s < maxIndex s
            \<longrightarrow> currentIndex (onDragEnd s) = currentIndex s + 1)
       \<and> (\<not> (jsSub (currentX s) (startX s) > of_nat (cardWidth s) / 4 \<and> currentIndex s > 0)
          \<and> \<not> (jsSub (currentX s) (startX s) < - (of_nat (cardWidth s) / 4) \<and> currentIndex s < maxIndex s)
            \<longrightarrow> currentIndex (onDragEnd s) = currentIndex s)
       \<and> \<not> isDragging (onDragEnd s)
       \<and> translateX (onDragEnd s) = - currentIndex (onDragEnd s) * int (cardWidth s + gap s)
       \<and> trackTransform (onDragEnd s) = Some (of_int (translateX (onDragEnd s)))
       \<and> \<not> classList_contains ''is-dragging'' (trackClasses (onDragEnd s))"
proof -
  have t: "- (of_nat (cardWidth s) / 4) \<le> (of_nat (cardWidth s) / 4 :: rat)" by simp
  have "jsSub (currentX s) (startX s) < - (of_nat (cardWidth s) / 4)
        \<Longrightarrow> \<not> jsSub (currentX s) (startX s) > of_nat (cardWidth s) / 4"
    using t by linarith
  then show ?thesis
    using onDragEnd_fields [OF assms] by (auto simp: onDragEnd_index [OF assms])
qed

theorem drag_end_index_witness:
  "isDragging (midDrag 500) \<and> isDragging (midDrag 300) \<and> isDragging (midDrag 420)
   \<and> jsSub (currentX (midDrag 500)) (startX (midDrag 500)) > of_nat (cardWidth (midDrag 500)) / 4
   \<and> currentIndex (midDrag 500) > 0
   \<and> currentIndex (onDragEnd (midDrag 500)) = 0
   \<and> jsSub (currentX (midDrag 300)) (startX (midDrag 300))
       < - (of_nat (cardWidth (midDrag 300)) / 4)
   \<and> currentIndex (midDrag 300) < maxIndex (midDrag 300)
   \<and> currentIndex (onDragEnd (midDrag 300)) = 2
   \<and> currentIndex (onDragEnd (midDrag 420)) = 1
   \<and> translateX (onDragEnd (midDrag 300)) = - 600
   \<and> trackTransform (onDragEnd (midDrag 420)) = Some (- 300)"
proof -
  have h: "isDragging (midDrag x)" for x by (simp add: midDrag_def)
  have f: "currentX (midDrag x) = x" "startX (midDrag x) = 400" "cardWidth (midDrag x) = 276"
    "gap (midDrag x) = 24" "currentIndex (midDrag x) = 1" "maxIndex (midDrag x) = 3" for x
    by (simp_all add: midDrag_def)
  from drag_end_index [OF h, of 500] drag_end_index [OF h, of 300]
       drag_end_index [OF h, of 420] h
  show ?thesis by (simp add: f jsSub_samples)
qed

text \<open>
  At the threshold the rounded difference counts, as in the code: a drag from the double
  next to 2/3 to the double next to 209/3 on cards of 276px has the computed distance
  69, which is not above 69, and the index stays.
\<close>

lemma drag_at_rounded_threshold:
  "currentIndex (run (atIndex 1) [DragStart twoThirds, DragMove twoHundredNineThirds, DragEnd]) = 1"
  by (simp add: run_def step_def atIndex_def onDragStart_def onDragMove_def onDragEnd_def
      updatePosition_def Let_def jsSub_rounds_at_thresholds)

subsection \<open>Dimension calculation\<close>

text \<open>
  A track without cards keeps the values the state variables start with, whatever
  happens: \<open>calculateDimensions\<close> returns at once, and no other handler finds room to
  move the index.
\<close>

lemma zero_cards_step:
  assumes "totalCards s = 0 \<and> cardWidth s = 0 \<and> gap s = 24 \<and> currentIndex s = 0
           \<and> maxIndex s = 0 \<and> translateX s = 0"
  shows "totalCards (step s ev) = 0 \<and> cardWidth (step s ev) = 0 \<and> gap (step s ev) = 24
         \<and> currentIndex (step s ev) = 0 \<and> maxIndex (step s ev) = 0 \<and> translateX (step s ev) = 0"
proof (cases ev)
  case (KeyDown e)
  then show ?thesis using assms onKeyDown_cases [of e s]
    by (auto simp: step_def goToPrev_def goToNext_def)
next
  case DragEnd
  then show ?thesis using assms
    by (cases "isDragging s")
       (simp_all add: step_def onDragEnd_index onDragEnd_fields, simp add: onDragEnd_def)
qed (use assms in \<open>simp_all add: step_def goToPrev_def goToNext_def onDragStart_def
      onDragMove_def Let_def calculateDimensions_def trackClick_def\<close>)

lemma zero_cards_run:
  assumes "totalCards s = 0 \<and> cardWidth s = 0 \<and> gap s = 24 \<and> currentIndex s = 0
           \<and> maxIndex s = 0 \<and> translateX s = 0"
  shows "totalCards (run s evs) = 0 \<and> cardWidth (run s evs) = 0 \<and> gap (run s evs) = 24
         \<and> currentIndex (run s evs) = 0 \<and> maxIndex (run s evs) = 0
         \<and> translateX (run s evs) = 0"
  using assms
proof (induction evs arbitrary: s)
  case Nil
  then show ?case by (simp add: run_def)
next
  case (Cons ev evs)
  from Cons.IH [OF zero_cards_step [OF Cons.prems, of ev]]
  show ?case by (simp add: run_def)
qed

lemma zero_cards_quiet:
  assumes "totalCards s = 0" and "currentIndex s = 0" and "maxIndex s = 0"
  shows "step s PrevClick = s" and "step s NextClick = s" and "step s (KeyDown e) = s"
    and "step s (Recalc d) = s"
  using assms onKeyDown_cases [of e s]
  by (auto simp: step_def goToPrev_def goToNext_def calculateDimensions_def)

lemma step_totalCards [simp]: "totalCards (step s ev) = totalCards s"
proof (cases ev)
  case (KeyDown e)
  then show ?thesis using onKeyDown_cases [of e s] by (auto simp: step_def)
qed (simp_all add: step_def onDragStart_def onDragMove_def onDragEnd_def
      calculateDimensions_def trackClick_def Let_def)

lemma run_totalCards [simp]: "totalCards (run s evs) = totalCards s"
  by (induction evs arbitrary: s) (simp_all add: run_def)

text \<open>
  Every state the script can reach therefore has cards, or has index and maximum 0.
\<close>

lemma reachable_has_cards_or_rests:
  assumes "slider_boot (Some (n, cs)) = Some s0"
  shows "0 < totalCards (run s0 evs)
         \<or> (maxIndex (run s0 evs) = 0 \<and> currentIndex (run s0 evs) = 0)"
proof (cases "n = 0")
  case True
  with assms have "totalCards s0 = 0 \<and> cardWidth s0 = 0 \<and> gap s0 = 24 \<and> currentIndex s0 = 0
                   \<and> maxIndex s0 = 0 \<and> translateX s0 = 0"
    by (auto simp: slider_boot_def)
  from zero_cards_run [OF this, of evs] show ?thesis by simp
next
  case False
  with assms have "0 < totalCards s0" by (auto simp: slider_boot_def)
  then show ?thesis by simp
qed

text \<open>
  Claim C3. After a dimension calculation \<open>maxIndex\<close> is
  \<open>max(0, totalCards - visibleCards)\<close> with
  \<open>visibleCards = floor(containerWidth / (cardWidth + gap))\<close>, where \<open>cardWidth\<close> and
  \<open>gap\<close> are the values of the state after the call (the fresh readings whenever there
  are cards). If the old index exceeds the new \<open>maxIndex\<close>, the index becomes
  \<open>maxIndex\<close>, and \<open>translateX\<close> and the written transform become
  \<open>- maxIndex * (cardWidth + gap)\<close> with the class \<open>is-dragging\<close> on the track, that
  is, without animation; otherwise the index is kept. With 6 cards of which 3 are
  visible \<open>maxIndex\<close> is 3, and from index 1 three calls of \<open>goToNext\<close> give the
  indices 2, 3 and 3. The hypothesis holds in every state the script reaches
  (\<open>reachable_has_cards_or_rests\<close>).
\<close>

theorem recalc_dimensions:
  assumes "0 < totalCards s \<or> (maxIndex s = 0 \<and> currentIndex s = 0)"
  shows "maxIndex (calculateDimensions d s) =
           max 0 (int (totalCards s)
                  - int (containerOffsetWidth d
                         div (cardWidth (calculateDimensions d s) + gap (calculateDimensions d s))))
       \<and> (0 < totalCards s \<longrightarrow>
            cardWidth (calculateDimensions d s) = cardOffsetWidth d
          \<and> gap (calculateDimensions d s) = gapOrDefault (gapParsed d))
       \<and> (currentIndex s > maxIndex (calculateDimensions d s) \<longrightarrow>
            currentIndex (calculateDimensions d s) = maxIndex (calculateDimensions d s)
          \<and> translateX (calculateDimensions d s) =
              - maxIndex (calculateDimensions d s)
                * int (cardWidth (calculateDimensions d s) + gap (calculateDimensions d s))
          \<and> trackTransform (calculateDimensions d s) =
              Some (of_int (translateX (calculateDimensions d s)))
          \<and> classList_contains ''is-dragging'' (trackClasses (calculateDimensions d s)))
       \<and> (currentIndex s \<le> maxIndex (calculateDimensions d s) \<longrightarrow>
            currentIndex (calculateDimensions d s) = currentIndex s)
       \<and> (totalCards s = 6 \<and> currentIndex s = 1
          \<and> containerOffsetWidth d div (cardOffsetWidth d + gapOrDefault (gapParsed d)) = 3 \<longrightarrow>
            maxIndex (calculateDimensions d s) = 3
          \<and> currentIndex (goToNext (calculateDimensions d s)) = 2
          \<and> currentIndex (goToNext (goToNext (calculateDimensions d s))) = 3
          \<and> currentIndex (goToNext (goToNext (goToNext (calculateDimensions d s)))) = 3)"
  using assms
  by (auto simp: calculateDimensions_def Let_def updatePosition_classes goToNext_def)

theorem recalc_dimensions_witness:
  "0 < totalCards (atIndex 3)
   \<and> maxIndex (calculateDimensions veryWideLayout (atIndex 3)) = 1
   \<and> currentIndex (atIndex 3) > maxIndex (calculateDimensions veryWideLayout (atIndex 3))
   \<and> currentIndex (calculateDimensions veryWideLayout (atIndex 3)) = 1
   \<and> translateX (calculateDimensions veryWideLayout (atIndex 3)) = - 300
   \<and> trackTransform (calculateDimensions veryWideLayout (atIndex 3)) = Some (- 300)
   \<and> classList_contains ''is-dragging''
        (trackClasses (calculateDimensions veryWideLayout (atIndex 3)))
   \<and> totalCards (atIndex 1) = 6 \<and> currentIndex (atIndex 1) = 1
   \<and> containerOffsetWidth wideLayout
        div (cardOffsetWidth wideLayout + gapOrDefault (gapParsed wideLayout)) = 3
   \<and> maxIndex (calculateDimensions wideLayout (atIndex 1)) = 3
   \<and> currentIndex (goToNext (calculateDimensions wideLayout (atIndex 1))) = 2
   \<and> currentIndex (goToNext (goToNext (calculateDimensions wideLayout (atIndex 1)))) = 3
   \<and> currentIndex (goToNext (goToNext (goToNext
        (calculateDimensions wideLayout (atIndex 1))))) = 3"
proof -
  have h: "0 < totalCards (atIndex i) \<or> (maxIndex (atIndex i) = 0 \<and> currentIndex (atIndex i) = 0)"
    for i by (simp add: atIndex_def)
  have f: "totalCards (atIndex i) = 6" "currentIndex (atIndex i) = i" for i
    by (simp_all add: atIndex_def)
  have g: "containerOffsetWidth veryWideLayout = 1500" "cardOffsetWidth veryWideLayout = 276"
    "gapOrDefault (gapParsed veryWideLayout) = 24"
    "containerOffsetWidth wideLayout = 900" "cardOffsetWidth wideLayout = 276"
    "gapOrDefault (gapParsed wideLayout) = 24"
    by (simp_all add: veryWideLayout_def wideLayout_def gapOrDefault_def)
  from recalc_dimensions [OF h [of 3], of veryWideLayout]
       recalc_dimensions [OF h [of 1], of wideLayout]
  show ?thesis by (simp add: f g)
qed

subsection \<open>The committed offset\<close>

text \<open>
  Every handler other than the dimension calculation keeps
  \<open>translateX = - currentIndex * (cardWidth + gap)\<close>: those that move the index call
  \<open>updatePosition\<close>, the others touch neither side.
\<close>

lemma goTo_offset:
  assumes "translateX s = - currentIndex s * int (cardWidth s + gap s)"
  shows "translateX (goToPrev s)
         = - currentIndex (goToPrev s) * int (cardWidth (goToPrev s) + gap (goToPrev s))"
    and "translateX (goToNext s)
         = - currentIndex (goToNext s) * int (cardWidth (goToNext s) + gap (goToNext s))"
  using assms by (simp_all add: goToPrev_def goToNext_def algebra_simps)

lemma offset_kept_without_recalc:
  assumes "translateX s = - currentIndex s * int (cardWidth s + gap s)" and "\<not> isRecalc ev"
  shows "translateX (step s ev)
         = - currentIndex (step s ev) * int (cardWidth (step s ev) + gap (step s ev))"
proof (cases ev)
  case PrevClick
  then show ?thesis using goTo_offset(1) [OF assms(1)] by (simp add: step_def)
next
  case NextClick
  then show ?thesis using goTo_offset(2) [OF assms(1)] by (simp add: step_def)
next
  case (KeyDown e)
  from onKeyDown_cases [of e s] consider "onKeyDown e s = s" | "onKeyDown e s = goToPrev s"
    | "onKeyDown e s = goToNext s" by blast
  then have "translateX (onKeyDown e s)
         = - currentIndex (onKeyDown e s) * int (cardWidth (onKeyDown e s) + gap (onKeyDown e s))"
  proof cases
    case 1
    then show ?thesis using assms(1) by simp
  next
    case 2
    then show ?thesis using goTo_offset(1) [OF assms(1)] by simp
  next
    case 3
    then show ?thesis using goTo_offset(2) [OF assms(1)] by simp
  qed
  with KeyDown show ?thesis by (simp add: step_def)
next
  case DragEnd
  then show ?thesis using assms
    by (cases "isDragging s") (simp_all add: step_def onDragEnd_fields, simp add: onDragEnd_def)
qed (use assms in \<open>simp_all add: step_def onDragStart_def onDragMove_def Let_def trackClick_def\<close>)

text \<open>
  Claim C6 says that \<open>translateX = - currentIndex * (cardWidth + gap)\<close> whenever no drag
  is in progress, also after a dimension calculation that changes \<open>cardWidth\<close> or
  \<open>gap\<close> without clamping the index. The code does not keep this: on the six-card page,
  load in the wide layout, click next, then narrow the window. No drag is in progress,
  the index is 1 of at most 3, \<open>cardWidth + gap\<close> is now 200, and \<open>translateX\<close> and the
  written transform are still -300, not -200.
\<close>

theorem stale_offset_after_recalc:
  "slider_boot (Some (6, [''slider-track''])) = Some demoTrack
   \<and> \<not> isDragging (run demoTrack [Recalc wideLayout, NextClick, Recalc narrowLayout])
   \<and> currentIndex (run demoTrack [Recalc wideLayout, NextClick, Recalc narrowLayout]) = 1
   \<and> maxIndex (run demoTrack [Recalc wideLayout, NextClick, Recalc narrowLayout]) = 3
   \<and> cardWidth (run demoTrack [Recalc wideLayout, NextClick, Recalc narrowLayout]) = 176
   \<and> gap (run demoTrack [Recalc wideLayout, NextClick, Recalc narrowLayout]) = 24
   \<and> translateX (run demoTrack [Recalc wideLayout, NextClick, Recalc narrowLayout]) = - 300
   \<and> trackTransform (run demoTrack [Recalc wideLayout, NextClick, Recalc narrowLayout])
       = Some (- 300)
   \<and> translateX (run demoTrack [Recalc wideLayout, NextClick, Recalc narrowLayout])
       \<noteq> - currentIndex (run demoTrack [Recalc wideLayout, NextClick, Recalc narrowLayout])
           * int (cardWidth (run demoTrack [Recalc wideLayout, NextClick, Recalc narrowLayout])
                  + gap (run demoTrack [Recalc wideLayout, NextClick, Recalc narrowLayout]))"
  by (simp add: slider_boot_def demoTrack_def wideLayout_def narrowLayout_def run_def step_def
      calculateDimensions_def goToNext_def updatePosition_def gapOrDefault_def Let_def)

subsection \<open>Click suppression\<close>

lemma step_keeps_no_preventer:
  "\<not> isDragEnd ev \<Longrightarrow> preventClick s = 0 \<Longrightarrow> preventClick (step s ev) = 0"
  by (cases ev) (simp_all add: step_def onDragStart_def onDragMove_def Let_def trackClick_def)

lemma run_keeps_no_preventer:
  "list_all (\<lambda>ev. \<not> isDragEnd ev) evs \<Longrightarrow> preventClick s = 0 \<Longrightarrow>
   preventClick (run s evs) = 0"
proof (induction evs arbitrary: s)
  case Nil
  then show ?case by (simp add: run_def)
next
  case (Cons ev evs)
  then have "preventClick (step s ev) = 0" by (simp add: step_keeps_no_preventer)
  with Cons show ?case by (simp add: run_def)
qed

text \<open>
  A registered suppressor stays until a click goes through the track: no other handler
  removes one.
\<close>

lemma step_keeps_preventer:
  assumes "\<not> isTrackClick ev" and "0 < preventClick s"
  shows "0 < preventClick (step s ev)"
proof (cases ev)
  case DragEnd
  show ?thesis
  proof (cases "isDragging s")
    case True
    with DragEnd assms(2) show ?thesis by (simp add: step_def onDragEnd_fields(9))
  next
    case False
    with DragEnd assms(2) show ?thesis by (simp add: step_def onDragEnd_def)
  qed
qed (use assms in \<open>simp_all add: step_def onDragStart_def onDragMove_def Let_def\<close>)

lemma run_keeps_preventer:
  "list_all (\<lambda>ev. \<not> isTrackClick ev) evs \<Longrightarrow> 0 < preventClick s \<Longrightarrow>
   0 < preventClick (run s evs)"
proof (induction evs arbitrary: s)
  case Nil
  then show ?case by (simp add: run_def)
next
  case (Cons ev evs)
  then have "0 < preventClick (step s ev)" by (simp add: step_keeps_preventer)
  with Cons show ?case by (simp add: run_def)
qed

text \<open>
  Claim C8. Let a drag end while \<open>isDragging\<close> holds, with \<open>diff\<close> the value the
  code computes for \<open>currentX - startX\<close>, which its comment calls the total drag
  distance. If \<open>|diff| > 10\<close>, the next click through the track is cancelled, whatever
  other events come before it, and that click removes every suppressing listener: after
  it, whatever events follow short of another drag end (further clicks among them), a
  click through the track is not cancelled. If \<open>|diff| \<le> 10\<close>, the drag end registers
  no listener, so with none pending before, no later click is cancelled.
\<close>

theorem click_suppressed_once:
  assumes "isDragging s"
      and "list_all (\<lambda>ev. \<not> isTrackClick ev) evs1"
      and "list_all (\<lambda>ev. \<not> isDragEnd ev) evs2"
  shows "(\<bar>jsSub (currentX s) (startX s)\<bar> > 10 \<longrightarrow>
            fst (trackClick (run (onDragEnd s) evs1))
          \<and> preventClick (snd (trackClick (run (onDragEnd s) evs1))) = 0
          \<and> \<not> fst (trackClick (run (snd (trackClick (run (onDragEnd s) evs1))) evs2)))
       \<and> (\<bar>jsSub (currentX s) (startX s)\<bar> \<le> 10 \<longrightarrow>
            preventClick (onDragEnd s) = preventClick s
          \<and> (preventClick s = 0 \<longrightarrow> \<not> fst (trackClick (run (onDragEnd s) evs2))))"
proof -
  have a: "preventClick (snd (trackClick (run (onDragEnd s) evs1))) = 0"
    by (simp add: trackClick_def)
  have b: "preventClick (run (snd (trackClick (run (onDragEnd s) evs1))) evs2) = 0"
    using run_keeps_no_preventer [OF assms(3) a] .
  have c: "fst (trackClick (run (onDragEnd s) evs1))"
    if "\<bar>jsSub (currentX s) (startX s)\<bar> > 10"
  proof -
    from that have "0 < preventClick (onDragEnd s)"
      by (simp add: onDragEnd_fields(9) [OF assms(1)])
    from run_keeps_preventer [OF assms(2) this] show ?thesis
      by (simp add: trackClick_def)
  qed
  have d: "preventClick (onDragEnd s) = preventClick s"
    if "\<bar>jsSub (currentX s) (startX s)\<bar> \<le> 10"
    using that by (simp add: onDragEnd_fields(9) [OF assms(1)])
  have e: "preventClick (run (onDragEnd s) evs2) = 0"
    if "\<bar>jsSub (currentX s) (startX s)\<bar> \<le> 10" and "preventClick s = 0"
    using run_keeps_no_preventer [OF assms(3), of "onDragEnd s"] d that by simp
  show ?thesis using a b c d e by (auto simp: trackClick_def)
qed

theorem click_suppressed_once_witness:
  "isDragging (midDrag 420) \<and> isDragging (midDrag 405)
   \<and> list_all (\<lambda>ev. \<not> isTrackClick ev) [NextClick, DragStart 7, DragMove 9]
   \<and> list_all (\<lambda>ev. \<not> isDragEnd ev) [TrackClick, NextClick, DragStart 7, TrackClick]
   \<and> \<bar>jsSub (currentX (midDrag 420)) (startX (midDrag 420))\<bar> > 10
   \<and> fst (trackClick (run (onDragEnd (midDrag 420)) [NextClick, DragStart 7, DragMove 9]))
   \<and> \<not> fst (trackClick (run (snd (trackClick
              (run (onDragEnd (midDrag 420)) [NextClick, DragStart 7, DragMove 9])))
              [TrackClick, NextClick, DragStart 7, TrackClick]))
   \<and> \<bar>jsSub (currentX (midDrag 405)) (startX (midDrag 405))\<bar> \<le> 10
   \<and> preventClick (midDrag 405) = 0
   \<and> \<not> fst (trackClick (run (onDragEnd (midDrag 405))
              [TrackClick, NextClick, DragStart 7, TrackClick]))"
proof -
  have h: "isDragging (midDrag x)" for x by (simp add: midDrag_def)
  have l1: "list_all (\<lambda>ev. \<not> isTrackClick ev) [NextClick, DragStart 7, DragMove 9]"
    by simp
  have l2: "list_all (\<lambda>ev. \<not> isDragEnd ev) [TrackClick, NextClick, DragStart 7, TrackClick]"
    by simp
  have f: "currentX (midDrag x) = x" "startX (midDrag x) = 400" "preventClick (midDrag x) = 0"
    for x by (simp_all add: midDrag_def)
  from click_suppressed_once [OF h l1 l2, of 420] click_suppressed_once [OF h l1 l2, of 405]
       h l1 l2
  show ?thesis by (simp add: f jsSub_samples)
qed

text \<open>
  At the threshold the rounded difference counts, as in the code: a drag from the double
  next to 1/3 to the double next to 31/3 has the computed distance 10, which is not above
  10, and no listener is registered.
\<close>

lemma suppressor_at_rounded_threshold:
  "preventClick (run (atIndex 1) [DragStart oneThird, DragMove thirtyOneThirds, DragEnd]) = 0"
  by (simp add: run_def step_def atIndex_def onDragStart_def onDragMove_def onDragEnd_def
      updatePosition_def Let_def jsSub_rounds_at_thresholds)

subsection \<open>A track without cards\<close>

text \<open>
  Claim C9 says that with no track, or with a track that has no cards, nothing is
  initialised and every later interaction leaves the slider state and the document
  unchanged. With a track the script registers all its listeners before it looks at the
  cards, and only \<open>calculateDimensions\<close> asks whether there are any. On a track without
  cards a mousedown at x = 400 sets \<open>isDragging\<close> and puts \<open>is-dragging\<close> on the
  track, a move to x = 100 writes the transform -300, and the mouseup registers a click
  suppressor.
\<close>

theorem empty_track_drag_counterexample:
  "slider_boot (Some (0, [''slider-track''])) = Some emptyTrack
   \<and> step emptyTrack (DragStart 400) \<noteq> emptyTrack
   \<and> isDragging (step emptyTrack (DragStart 400))
   \<and> trackClasses (step emptyTrack (DragStart 400)) = [''slider-track'', ''is-dragging'']
   \<and> trackTransform (run emptyTrack [DragStart 400, DragMove 100]) = Some (- 300)
   \<and> preventClick (run emptyTrack [DragStart 400, DragMove 100, DragEnd]) = 1"
  by (simp add: slider_boot_def emptyTrack_def step_def run_def onDragStart_def onDragMove_def
      onDragEnd_def updatePosition_def classList_add_def classList_remove_def Let_def
      jsSub_samples jsAdd_samples)

text \<open>
  Claim C9 as amended. Without a track the script creates no state and registers
  nothing. With a track that has no cards, after any sequence of interactions the
  dimension and index variables still have their initial values (\<open>cardWidth\<close> 0,
  \<open>gap\<close> 24, \<open>currentIndex\<close> 0, \<open>maxIndex\<close> 0, \<open>translateX\<close> 0), and a button
  click, a keydown and a resize or load recalculation each leave the whole state
  unchanged. Nothing is said about drag and touch events.
\<close>

theorem empty_track_interactions:
  "slider_boot None = None
   \<and> (slider_boot (Some (0, cs)) = Some s0 \<longrightarrow>
        totalCards (run s0 evs) = 0 \<and> cardWidth (run s0 evs) = 0 \<and> gap (run s0 evs) = 24
      \<and> currentIndex (run s0 evs) = 0 \<and> maxIndex (run s0 evs) = 0
      \<and> translateX (run s0 evs) = 0
      \<and> step (run s0 evs) PrevClick = run s0 evs
      \<and> step (run s0 evs) NextClick = run s0 evs
      \<and> step (run s0 evs) (KeyDown e) = run s0 evs
      \<and> step (run s0 evs) (Recalc d) = run s0 evs)"
proof -
  have a: "slider_boot None = None" by (simp add: slider_boot_def)
  {
    assume "slider_boot (Some (0, cs)) = Some s0"
    then have "totalCards s0 = 0 \<and> cardWidth s0 = 0 \<and> gap s0 = 24 \<and> currentIndex s0 = 0
               \<and> maxIndex s0 = 0 \<and> translateX s0 = 0"
      by (auto simp: slider_boot_def)
    from zero_cards_run [OF this, of evs]
    have b: "totalCards (run s0 evs) = 0 \<and> cardWidth (run s0 evs) = 0 \<and> gap (run s0 evs) = 24
         \<and> currentIndex (run s0 evs) = 0 \<and> maxIndex (run s0 evs) = 0
         \<and> translateX (run s0 evs) = 0" .
    then have "totalCards (run s0 evs) = 0" "currentIndex (run s0 evs) = 0"
      "maxIndex (run s0 evs) = 0"
      by simp_all
    note zero_cards_quiet [OF this] b
  }
  with a show ?thesis by simp
qed

theorem empty_track_interactions_witness:
  "slider_boot (Some (0, [''slider-track''])) = Some emptyTrack
   \<and> currentIndex (run emptyTrack [DragStart 400, DragMove 100, DragEnd, NextClick]) = 0
   \<and> translateX (run emptyTrack [DragStart 400, DragMove 100, DragEnd, NextClick]) = 0
   \<and> step (run emptyTrack [DragStart 400, DragMove 100, DragEnd, NextClick]) NextClick
       = run emptyTrack [DragStart 400, DragMove 100, DragEnd, NextClick]
   \<and> step (run emptyTrack [DragStart 400, DragMove 100, DragEnd, NextClick])
        (Recalc wideLayout)
       = run emptyTrack [DragStart 400, DragMove 100, DragEnd, NextClick]"
proof -
  have h: "slider_boot (Some (0, [''slider-track''])) = Some emptyTrack"
    by (simp add: slider_boot_def emptyTrack_def)
  show ?thesis
    using h empty_track_interactions [of "[''slider-track'']" emptyTrack
        "[DragStart 400, DragMove 100, DragEnd, NextClick]" _ wideLayout]
    by simp
qed


section \<open>Properties of the utilities\<close>

subsection \<open>Queries and class lists\<close>

lemma querySelector_Some:
  "querySelector P els = Some i \<Longrightarrow> i < length els \<and> P (els ! i)"
  by (auto simp: querySelector_def find_Some_iff)

lemma querySelector_first:
  "querySelector P els = Some i \<Longrightarrow> j < i \<Longrightarrow> \<not> P (els ! j)"
  by (auto simp: querySelector_def find_Some_iff)

lemma querySelector_None:
  "querySelector P els = None \<longleftrightarrow> (\<forall>i < length els. \<not> P (els ! i))"
  by (auto simp: querySelector_def find_None_iff)

lemma closest_Some:
  "closest P els e = Some i \<Longrightarrow> i < length els \<and> P (els ! i)"
  unfolding closest_def by (auto simp: find_Some_iff split: if_splits)

lemma addClass_length [simp]: "length (addClass c i els) = length els"
  by (simp add: addClass_def)

lemma removeClass_length [simp]: "length (removeClass c i els) = length els"
  by (simp add: removeClass_def)

lemma hasClass_addClass:
  "j < length els \<Longrightarrow>
   hasClass c (addClass d i els ! j) = (hasClass c (els ! j) \<or> (i = j \<and> c = d))"
  by (cases "i = j")
     (auto simp: addClass_def hasClass_def classList_contains_def classList_add_def)

lemma hasClass_removeClass:
  "j < length els \<Longrightarrow>
   hasClass c (removeClass d i els ! j) = (hasClass c (els ! j) \<and> \<not> (i = j \<and> c = d))"
  by (cases "i = j")
     (auto simp: removeClass_def hasClass_def classList_contains_def classList_remove_def)

lemma removeAll_length [simp]:
  "length (foldl (\<lambda>acc m. removeClass c m acc) els ms) = length els"
  by (induction ms arbitrary: els) simp_all

lemma hasClass_removeAll:
  "j < length els \<Longrightarrow>
   hasClass c (foldl (\<lambda>acc m. removeClass d m acc) els ms ! j)
     = (hasClass c (els ! j) \<and> \<not> (j \<in> set ms \<and> c = d))"
proof (induction ms arbitrary: els)
  case Nil
  then show ?case by simp
next
  case (Cons m ms)
  from Cons.prems have "j < length (removeClass d m els)" by simp
  from Cons.IH [OF this] Cons.prems show ?case
    by (auto simp: hasClass_removeClass)
qed

lemma closeAllModals_length [simp]:
  "length (elements (closeAllModals doc)) = length (elements doc)"
  by (simp add: closeAllModals_def Let_def split: option.splits)

lemma closeAllModals_hasClass:
  assumes "j < length (elements doc)"
  shows "hasClass c (elements (closeAllModals doc) ! j) =
     (hasClass c (elements doc ! j)
      \<and> \<not> (c = ''is-active'' \<and> hasClass ''modal'' (elements doc ! j) \<and> hasClass ''is-active'' (elements doc ! j))
      \<and> \<not> (c = ''is-active'' \<and>
            querySelector (\<lambda>e. hasClass ''overlay'' e \<and> hasClass ''is-active'' e) (elements doc) = Some j))"
  using assms
  by (auto simp: closeAllModals_def Let_def hasClass_removeClass hasClass_removeAll
      querySelectorAll_def split: option.splits)

lemma no_active_modal_left:
  "querySelectorAll (\<lambda>e. hasClass ''modal'' e \<and> hasClass ''is-active'' e)
     (elements (closeAllModals doc)) = []"
  by (auto simp: querySelectorAll_def filter_empty_conv closeAllModals_hasClass)

lemma shared_overlay_off:
  assumes "querySelector (hasClass ''overlay'') (elements doc) = Some ov"
  shows "\<not> hasClass ''is-active'' (elements (closeAllModals doc) ! ov)"
proof
  assume a: "hasClass ''is-active'' (elements (closeAllModals doc) ! ov)"
  from querySelector_Some [OF assms] have l: "ov < length (elements doc)"
    and o: "hasClass ''overlay'' (elements doc ! ov)" by simp_all
  from a l have act: "hasClass ''is-active'' (elements doc ! ov)"
    and nf: "querySelector (\<lambda>e. hasClass ''overlay'' e \<and> hasClass ''is-active'' e) (elements doc) \<noteq> Some ov"
    by (simp_all add: closeAllModals_hasClass)
  from l o act obtain k where
    k: "querySelector (\<lambda>e. hasClass ''overlay'' e \<and> hasClass ''is-active'' e) (elements doc) = Some k"
    by (cases "querySelector (\<lambda>e. hasClass ''overlay'' e \<and> hasClass ''is-active'' e) (elements doc)")
       (auto simp: querySelector_None)
  from querySelector_Some [OF k] have ko: "hasClass ''overlay'' (elements doc ! k)" by simp
  have "\<not> k < ov" using querySelector_first [OF assms] ko by blast
  moreover have "\<not> ov < k" using querySelector_first [OF k] o act by blast
  ultimately have "k = ov" by simp
  with k nf show False by simp
qed

text \<open>The sample page: open the first modal, use the button inside it, close.\<close>

lemma modalPage_open:
  "modalClick (clickOn 0 []) modalPage =
     \<lparr> elements =
         [plainElement ''button'' [(''data-modal-open'', ''m1'')] [],
          plainElement ''div'' [(''id'', ''m1'')] [''modal'', ''is-active''],
          plainElement ''button'' [(''data-modal-close'', ''''), (''data-modal-open'', ''m2'')] [],
          plainElement ''div'' [(''id'', ''m2'')] [''modal''],
          plainElement ''div'' [] [''overlay'', ''is-active''],
          plainElement ''button'' [(''data-modal-open'', ''nope'')] [],
          plainElement ''button'' [(''data-modal-close'', '''')] []],
       bodyOverflow = ''hidden'' \<rparr>"
  by (simp add: modalClick_def modalPage_def clickOn_def closest_def hasAttribute_def
      getAttribute_def getElementById_def querySelector_def hasClass_def classList_contains_def
      classList_add_def addClass_def plainElement_def Let_def)

lemma modalPage_switch:
  "modalClick (clickOn 2 [1]) (modalClick (clickOn 0 []) modalPage) =
     \<lparr> elements =
         [plainElement ''button'' [(''data-modal-open'', ''m1'')] [],
          plainElement ''div'' [(''id'', ''m1'')] [''modal'', ''is-active''],
          plainElement ''button'' [(''data-modal-close'', ''''), (''data-modal-open'', ''m2'')] [],
          plainElement ''div'' [(''id'', ''m2'')] [''modal'', ''is-active''],
          plainElement ''div'' [] [''overlay'', ''is-active''],
          plainElement ''button'' [(''data-modal-open'', ''nope'')] [],
          plainElement ''button'' [(''data-modal-close'', '''')] []],
       bodyOverflow = ''hidden'' \<rparr>"
  unfolding modalPage_open
  by (simp add: modalClick_def clickOn_def closest_def hasAttribute_def
      getAttribute_def getElementById_def querySelector_def hasClass_def classList_contains_def
      classList_add_def addClass_def plainElement_def Let_def)

lemma modalPage_close:
  "modalClick (clickOn 6 [3]) (modalClick (clickOn 2 [1]) (modalClick (clickOn 0 []) modalPage))
     = modalPage"
  unfolding modalPage_switch
  by (simp add: modalClick_def clickOn_def closest_def hasAttribute_def closeAllModals_def
      getAttribute_def getElementById_def querySelector_def querySelectorAll_def hasClass_def
      classList_contains_def classList_remove_def removeClass_def modalPage_def
      classList_add_def addClass_def plainElement_def Let_def)

subsection \<open>Modals\<close>

text \<open>
  Claim C4 says that every close action, a click on a \<open>[data-modal-close]\<close> element
  among them, deactivates all active modals and the overlay and restores scrolling.
  The click listener looks for a \<open>[data-modal-open]\<close> trigger first and returns after
  handling it. On the sample page the first modal is open; a click on the button inside
  it, which carries \<open>data-modal-close\<close> and \<open>data-modal-open="m2"\<close>, leaves the
  first modal and the overlay active and the scroll lock in place.
\<close>

theorem close_inside_trigger_counterexample:
  "hasAttribute ''data-modal-close'' (elements (modalClick (clickOn 0 []) modalPage) ! 2)
   \<and> hasClass ''modal'' (elements (modalClick (clickOn 0 []) modalPage) ! 1)
   \<and> hasClass ''is-active'' (elements (modalClick (clickOn 0 []) modalPage) ! 1)
   \<and> hasClass ''modal''
        (elements (modalClick (clickOn 2 [1]) (modalClick (clickOn 0 []) modalPage)) ! 1)
   \<and> hasClass ''is-active''
        (elements (modalClick (clickOn 2 [1]) (modalClick (clickOn 0 []) modalPage)) ! 1)
   \<and> hasClass ''is-active''
        (elements (modalClick (clickOn 2 [1]) (modalClick (clickOn 0 []) modalPage)) ! 4)
   \<and> bodyOverflow (modalClick (clickOn 2 [1]) (modalClick (clickOn 0 []) modalPage)) = ''hidden''"
  unfolding modalPage_switch unfolding modalPage_open
  by (simp add: hasAttribute_def getAttribute_def hasClass_def classList_contains_def plainElement_def)

text \<open>
  Claim C4 as amended. Opening: a click on or inside a \<open>[data-modal-open]\<close> trigger
  whose value is the id of an element adds \<open>is-active\<close> to that element and to the
  shared overlay (the first \<open>.overlay\<close>, when there is one) and sets the body overflow
  to \<open>hidden\<close>. Closing: a click that is not on or inside a \<open>[data-modal-open]\<close>
  trigger and is on or inside a \<open>[data-modal-close]\<close> element or directly on an
  \<open>.overlay\<close> element, and every Escape keydown, run \<open>closeAllModals\<close>; after it no
  element has both classes \<open>modal\<close> and \<open>is-active\<close>, however many had, the shared
  overlay is not active, and the body overflow is reset to the empty string.
\<close>

theorem modal_open_and_close:
  "(closest (hasAttribute ''data-modal-open'') (elements doc) e = Some t
      \<and> getAttribute ''data-modal-open'' (elements doc ! t) = Some modalId
      \<and> getElementById modalId (elements doc) = Some m \<longrightarrow>
        hasClass ''is-active'' (elements (modalClick e doc) ! m)
      \<and> (\<forall>ov. querySelector (hasClass ''overlay'') (elements doc) = Some ov \<longrightarrow>
            hasClass ''is-active'' (elements (modalClick e doc) ! ov))
      \<and> bodyOverflow (modalClick e doc) = ''hidden'')
   \<and> (closest (hasAttribute ''data-modal-open'') (elements doc) e = None
      \<and> (closest (hasAttribute ''data-modal-close'') (elements doc) e \<noteq> None
         \<or> (target e < length (elements doc) \<and> hasClass ''overlay'' (elements doc ! target e))) \<longrightarrow>
        modalClick e doc = closeAllModals doc)
   \<and> modalKeyDown ''Escape'' doc = closeAllModals doc
   \<and> querySelectorAll (\<lambda>x. hasClass ''modal'' x \<and> hasClass ''is-active'' x)
        (elements (closeAllModals doc)) = []
   \<and> (\<forall>ov. querySelector (hasClass ''overlay'') (elements doc) = Some ov \<longrightarrow>
         \<not> hasClass ''is-active'' (elements (closeAllModals doc) ! ov))
   \<and> bodyOverflow (closeAllModals doc) = []"
proof -
  have on_open: "hasClass ''is-active'' (elements (modalClick e doc) ! m)
      \<and> (\<forall>ov. querySelector (hasClass ''overlay'') (elements doc) = Some ov \<longrightarrow>
            hasClass ''is-active'' (elements (modalClick e doc) ! ov))
      \<and> bodyOverflow (modalClick e doc) = ''hidden''"
    if a: "closest (hasAttribute ''data-modal-open'') (elements doc) e = Some t"
      and b: "getAttribute ''data-modal-open'' (elements doc ! t) = Some modalId"
      and c: "getElementById modalId (elements doc) = Some m"
  proof -
    from c have "querySelector (\<lambda>x. getAttribute ''id'' x = Some modalId) (elements doc) = Some m"
      by (simp add: getElementById_def split: if_splits)
    from querySelector_Some [OF this] have m: "m < length (elements doc)" by simp
    show ?thesis
    proof (cases "querySelector (hasClass ''overlay'') (elements doc)")
      case None
      with a b c m show ?thesis by (simp add: modalClick_def Let_def hasClass_addClass)
    next
      case (Some ov)
      from querySelector_Some [OF Some] have "ov < length (elements doc)" by simp
      with Some a b c m show ?thesis by (simp add: modalClick_def Let_def hasClass_addClass)
    qed
  qed
  have on_close: "modalClick e doc = closeAllModals doc"
    if "closest (hasAttribute ''data-modal-open'') (elements doc) e = None"
      and "closest (hasAttribute ''data-modal-close'') (elements doc) e \<noteq> None
         \<or> (target e < length (elements doc) \<and> hasClass ''overlay'' (elements doc ! target e))"
    using that by (auto simp: modalClick_def Let_def)
  have esc: "modalKeyDown ''Escape'' doc = closeAllModals doc"
    by (simp add: modalKeyDown_def)
  have ovf: "bodyOverflow (closeAllModals doc) = []"
    by (simp add: closeAllModals_def Let_def)
  from on_open on_close esc ovf no_active_modal_left [of doc] shared_overlay_off [of doc]
  show ?thesis by blast
qed

theorem modal_open_and_close_witness:
  "closest (hasAttribute ''data-modal-open'') (elements modalPage) (clickOn 0 []) = Some 0
   \<and> getAttribute ''data-modal-open'' (elements modalPage ! 0) = Some ''m1''
   \<and> getElementById ''m1'' (elements modalPage) = Some 1
   \<and> querySelector (hasClass ''overlay'') (elements modalPage) = Some 4
   \<and> hasClass ''is-active'' (elements (modalClick (clickOn 0 []) modalPage) ! 1)
   \<and> hasClass ''is-active'' (elements (modalClick (clickOn 0 []) modalPage) ! 4)
   \<and> bodyOverflow (modalClick (clickOn 0 []) modalPage) = ''hidden''
   \<and> closest (hasAttribute ''data-modal-open'') (elements (modalClick (clickOn 0 []) modalPage))
        (clickOn 6 [3]) = None
   \<and> closest (hasAttribute ''data-modal-close'') (elements (modalClick (clickOn 0 []) modalPage))
        (clickOn 6 [3]) \<noteq> None
   \<and> modalClick (clickOn 6 [3]) (modalClick (clickOn 0 []) modalPage)
       = closeAllModals (modalClick (clickOn 0 []) modalPage)
   \<and> \<not> hasClass ''is-active''
        (elements (closeAllModals (modalClick (clickOn 0 []) modalPage)) ! 4)"
proof -
  have a: "closest (hasAttribute ''data-modal-open'') (elements modalPage) (clickOn 0 []) = Some 0"
    by (simp add: closest_def modalPage_def clickOn_def hasAttribute_def getAttribute_def plainElement_def)
  have b: "getAttribute ''data-modal-open'' (elements modalPage ! 0) = Some ''m1''"
    by (simp add: modalPage_def getAttribute_def plainElement_def)
  have c: "getElementById ''m1'' (elements modalPage) = Some 1"
    by (simp add: getElementById_def querySelector_def modalPage_def getAttribute_def plainElement_def)
  have d: "querySelector (hasClass ''overlay'') (elements modalPage) = Some 4"
    by (simp add: querySelector_def modalPage_def hasClass_def classList_contains_def plainElement_def)
  have d': "querySelector (hasClass ''overlay'') (elements (modalClick (clickOn 0 []) modalPage))
            = Some 4"
    unfolding modalPage_open
    by (simp add: querySelector_def hasClass_def classList_contains_def plainElement_def)
  have f: "closest (hasAttribute ''data-modal-open'')
             (elements (modalClick (clickOn 0 []) modalPage)) (clickOn 6 [3]) = None"
    unfolding modalPage_open
    by (simp add: closest_def clickOn_def hasAttribute_def getAttribute_def plainElement_def)
  have g: "closest (hasAttribute ''data-modal-close'')
             (elements (modalClick (clickOn 0 []) modalPage)) (clickOn 6 [3]) \<noteq> None"
    unfolding modalPage_open
    by (simp add: closest_def clickOn_def hasAttribute_def getAttribute_def plainElement_def)
  from modal_open_and_close [of modalPage "clickOn 0 []" 0 "''m1''" 1]
       modal_open_and_close [of "modalClick (clickOn 0 []) modalPage" "clickOn 6 [3]"]
       a b c d d' f g
  show ?thesis by simp
qed

text \<open>
  Claim C10. A click on or inside a \<open>[data-modal-open]\<close> trigger whose value is the
  id of no element of the document leaves the document as it is: no element and not the
  overlay gets \<open>is-active\<close>, and the body overflow is not written.
\<close>

theorem unknown_modal_id_noop:
  assumes "closest (hasAttribute ''data-modal-open'') (elements doc) e = Some t"
      and "getAttribute ''data-modal-open'' (elements doc ! t) = Some modalId"
      and "list_all (\<lambda>x. getAttribute ''id'' x \<noteq> Some modalId) (elements doc)"
  shows "modalClick e doc = doc"
proof -
  from assms(3) have "getElementById modalId (elements doc) = None"
    by (simp add: getElementById_def querySelector_None list_all_length)
  with assms(1,2) show ?thesis by (simp add: modalClick_def Let_def)
qed

theorem unknown_modal_id_noop_witness:
  "closest (hasAttribute ''data-modal-open'') (elements modalPage) (clickOn 5 []) = Some 5
   \<and> getAttribute ''data-modal-open'' (elements modalPage ! 5) = Some ''nope''
   \<and> list_all (\<lambda>x. getAttribute ''id'' x \<noteq> Some ''nope'') (elements modalPage)
   \<and> modalClick (clickOn 5 []) modalPage = modalPage"
proof -
  have a: "closest (hasAttribute ''data-modal-open'') (elements modalPage) (clickOn 5 []) = Some 5"
    by (simp add: closest_def modalPage_def clickOn_def hasAttribute_def getAttribute_def plainElement_def)
  have b: "getAttribute ''data-modal-open'' (elements modalPage ! 5) = Some ''nope''"
    by (simp add: modalPage_def getAttribute_def plainElement_def)
  have c: "list_all (\<lambda>x. getAttribute ''id'' x \<noteq> Some ''nope'') (elements modalPage)"
    by (simp add: modalPage_def getAttribute_def plainElement_def)
  from unknown_modal_id_noop [OF a b c] a b c show ?thesis by simp
qed

subsection \<open>Smooth scroll\<close>

text \<open>
  The outcomes of a click on or inside a link whose \<open>href\<close> begins with \<open>#\<close>. If the
  \<open>href\<close> is exactly \<open>#\<close>, or it is a selector that no element matches, the listener
  returns with nothing done. If it is a selector that an element matches, the listener
  prevents the default, scrolls smoothly to
  \<open>target.getBoundingClientRect().top + window.scrollY - headerHeight\<close> as the code
  computes it, where \<open>headerHeight\<close> is the \<open>offsetHeight\<close> of \<open>.site-header\<close> or 0
  without such an element, and pushes the \<open>href\<close> with \<open>history.pushState\<close>, in this
  order. If the \<open>href\<close> is no selector, \<open>querySelector\<close> throws before anything is done.
\<close>

lemma smoothScrollClick_outcomes:
  assumes "closest isHashLink (elements doc) e = Some l"
      and "getAttribute ''href'' (elements doc ! l) = Some h"
  shows "(h = ''#'' \<longrightarrow> smoothScrollClick selector scrollY e doc = Inr [])
       \<and> (h \<noteq> ''#'' \<and> selector h = Some P \<and> querySelector P (elements doc) = None \<longrightarrow>
            smoothScrollClick selector scrollY e doc = Inr [])
       \<and> (h \<noteq> ''#'' \<and> selector h = None \<longrightarrow>
            smoothScrollClick selector scrollY e doc = Inl SyntaxError)
       \<and> (h \<noteq> ''#'' \<and> selector h = Some P \<and> querySelector P (elements doc) = Some t \<longrightarrow>
            smoothScrollClick selector scrollY e doc =
              Inr [PreventDefault,
                   ScrollTo (jsSub (jsAdd (rectTop (elements doc ! t)) scrollY)
                              (of_nat (case querySelector (hasClass ''site-header'') (elements doc) of
                                         None \<Rightarrow> 0
                                       | Some hdr \<Rightarrow> offsetHeight (elements doc ! hdr))))
                            ''smooth'',
                   PushState h])"
  using assms by (simp add: smoothScrollClick_def Let_def)

lemma sampleSelector_samples:
  "sampleSelector ''#about'' = Some (\<lambda>x. getAttribute ''id'' x = Some ''about'')"
  "sampleSelector ''#missing'' = Some (\<lambda>x. getAttribute ''id'' x = Some ''missing'')"
  "sampleSelector ''#2024'' = None"
  by (simp_all add: sampleSelector_def isIdent_def identStart_def identChar_def)

lemma scrollPage_links:
  "closest isHashLink (elements scrollPage) (clickOn 1 []) = Some 1"
  "closest isHashLink (elements scrollPage) (clickOn 3 []) = Some 3"
  "closest isHashLink (elements scrollPage) (clickOn 4 []) = Some 4"
  "closest isHashLink (elements scrollPage) (clickOn 5 []) = Some 5"
  "getAttribute ''href'' (elements scrollPage ! 1) = Some ''#about''"
  "getAttribute ''href'' (elements scrollPage ! 3) = Some ''#''"
  "getAttribute ''href'' (elements scrollPage ! 4) = Some ''#missing''"
  "getAttribute ''href'' (elements scrollPage ! 5) = Some ''#2024''"
  by (simp_all add: closest_def scrollPage_def clickOn_def isHashLink_def getAttribute_def
      plainElement_def)

lemma scrollPage_queries:
  "querySelector (\<lambda>x. getAttribute ''id'' x = Some ''about'') (elements scrollPage) = Some 2"
  "querySelector (\<lambda>x. getAttribute ''id'' x = Some ''missing'') (elements scrollPage) = None"
  "querySelector (hasClass ''site-header'') (elements scrollPage) = Some 0"
  "getElementById ''2024'' (elements scrollPage) = Some 6"
  by (simp_all add: querySelector_def getElementById_def scrollPage_def getAttribute_def
      hasClass_def classList_contains_def plainElement_def)

text \<open>
  On the sample page, scrolled down by 1000px: the link to \<open>about\<close> scrolls to
  640 + 1000 - 80, the links to \<open>#\<close> and to the missing fragment do nothing.
\<close>

lemma scrollPage_clicks:
  "smoothScrollClick sampleSelector 1000 (clickOn 1 []) scrollPage
     = Inr [PreventDefault, ScrollTo 1560 ''smooth'', PushState ''#about'']"
  "smoothScrollClick sampleSelector 1000 (clickOn 3 []) scrollPage = Inr []"
  "smoothScrollClick sampleSelector 1000 (clickOn 4 []) scrollPage = Inr []"
proof -
  have r: "rectTop (elements scrollPage ! 2) = 640" "offsetHeight (elements scrollPage ! 0) = 80"
    by (simp_all add: scrollPage_def)
  show "smoothScrollClick sampleSelector 1000 (clickOn 1 []) scrollPage
     = Inr [PreventDefault, ScrollTo 1560 ''smooth'', PushState ''#about'']"
    using smoothScrollClick_outcomes [OF scrollPage_links(1) scrollPage_links(5),
        where selector = sampleSelector and scrollY = 1000
          and P = "\<lambda>x. getAttribute ''id'' x = Some ''about''" and t = 2]
    by (simp add: sampleSelector_samples scrollPage_queries r jsAdd_samples jsSub_scroll_sample)
  show "smoothScrollClick sampleSelector 1000 (clickOn 3 []) scrollPage = Inr []"
    by (simp add: smoothScrollClick_def Let_def scrollPage_links)
  show "smoothScrollClick sampleSelector 1000 (clickOn 4 []) scrollPage = Inr []"
    by (simp add: smoothScrollClick_def Let_def scrollPage_links sampleSelector_samples
        scrollPage_queries)
qed

text \<open>
  Claim C7 says that a click on a link whose \<open>href\<close> begins with \<open>#\<close> does nothing
  only when the \<open>href\<close> is \<open>#\<close> or has no element in the document, and otherwise
  prevents the default, scrolls smoothly to the target and pushes the fragment. The
  listener calls the \<open>href\<close> \<open>targetId\<close> and looks for the target element, but hands
  the string to \<open>querySelector\<close>, which reads it as a selector. On the sample page the
  link with \<open>href="#2024"\<close> has its target, the section with the id \<open>2024\<close>; the
  string is no selector, and the click ends in a \<open>SyntaxError\<close> before
  \<open>preventDefault\<close>: nothing is scrolled and no fragment is pushed.
\<close>

theorem digit_fragment_throws:
  "closest isHashLink (elements scrollPage) (clickOn 5 []) = Some 5
   \<and> getAttribute ''href'' (elements scrollPage ! 5) = Some ''#2024''
   \<and> getElementById ''2024'' (elements scrollPage) = Some 6
   \<and> getAttribute ''id'' (elements scrollPage ! 6) = Some ''2024''
   \<and> sampleSelector ''#2024'' = None
   \<and> smoothScrollClick sampleSelector 1000 (clickOn 5 []) scrollPage = Inl SyntaxError"
proof -
  have "getAttribute ''id'' (elements scrollPage ! 6) = Some ''2024''"
    by (simp add: scrollPage_def getAttribute_def)
  moreover have "smoothScrollClick sampleSelector 1000 (clickOn 5 []) scrollPage = Inl SyntaxError"
    by (simp add: smoothScrollClick_def Let_def scrollPage_links sampleSelector_samples)
  ultimately show ?thesis
    by (simp add: scrollPage_links scrollPage_queries sampleSelector_samples)
qed


section \<open>Properties of the page transition\<close>

text \<open>
  With reduced motion the entrance adds no class and sets no timer, \<open>navigateTo\<close>
  assigns the URL at once and does nothing else, and a click on a link either leaves the
  page alone or is prevented and navigates at once.
\<close>

lemma reduced_motion_entry_and_links:
  assumes "prefersReducedMotion p"
  shows "bodyClasses (init random p) = bodyClasses p"
    and "map_option overlayClasses (transition (init random p))
         = map_option overlayClasses (transition p)"
    and "timers (init random p) = timers p"
    and "navigateTo url p = p \<lparr> locationHref := url \<rparr>"
    and "snd (onLinkClick e p) = p \<or>
         (\<exists>l. clickedLink e = Some l \<and> fst (onLinkClick e p)
               \<and> snd (onLinkClick e p) = p \<lparr> locationHref := linkHref l \<rparr>)"
  using assms
  by (auto simp: init_def createGlitchLines_def navigateTo_def onLinkClick_def Let_def
      split: option.splits)

text \<open>
  Claim C5 says that with reduced motion no operation of the controller, the popstate
  handler included, adds a marker class to the body or the overlay. The popstate listener
  does not read the preference: on the page of a visitor who asked for reduced motion it
  adds \<open>is-glitching\<close> to the body and \<open>glitch-active\<close> to the overlay.
\<close>

theorem popstate_ignores_reduced_motion:
  "prefersReducedMotion calmPage
   \<and> bodyClasses calmPage = []
   \<and> map_option overlayClasses (transition calmPage) = Some [''page-transition'']
   \<and> bodyClasses (onPopState calmPage) = [''is-glitching'']
   \<and> map_option overlayClasses (transition (onPopState calmPage))
       = Some [''page-transition'', ''glitch-active'']"
  by (simp add: calmPage_def onPopState_def overlayAdd_def classList_add_def)

end
